theory Spec2Isabelle
  imports Complex_Main "HOL-Library.Word" "HOL-Library.Sublist"
begin

section \<open>JavaScript values used by ticker.js and steam-fetch.js\<close>

subsection \<open>Strings\<close>

text \<open>
  A JavaScript string is a sequence of UTF-16 code units. String literals of the source
  are ASCII; \<open>str\<close> embeds an ASCII literal.
\<close>

type_synonym jsstring = "16 word list"

definition str :: "string \<Rightarrow> jsstring" where
  "str s = map of_char s"

text \<open>\<open>x || ''\<close> for a member \<open>x\<close> that is a string when it is there (\<open>None\<close>: absent or null).\<close>

definition orEmpty :: "jsstring option \<Rightarrow> jsstring" where
  "orEmpty x = (case x of None \<Rightarrow> [] | Some s \<Rightarrow> s)"

subsection \<open>Numbers\<close>

text \<open>
  A JavaScript number is an IEEE 754 binary64 value: NaN, the two infinities, the
  negative zero, or a finite value. \<open>Fin r\<close> carries the exact rational value of a
  finite double (\<open>Fin 0\<close> is the positive zero).
\<close>

datatype jsnum = NaN | PosInf | NegInf | NegZero | Fin rat

fun rv :: "jsnum \<Rightarrow> rat" where
  "rv (Fin r) = r"
| "rv _ = 0"

definition isInf :: "jsnum \<Rightarrow> bool" where
  "isInf x = (x = PosInf \<or> x = NegInf)"

definition signbit :: "jsnum \<Rightarrow> bool" where
  "signbit x = (case x of NegInf \<Rightarrow> True | NegZero \<Rightarrow> True | Fin r \<Rightarrow> r < 0 | _ \<Rightarrow> False)"

definition inf :: "bool \<Rightarrow> jsnum" where
  "inf negative = (if negative then NegInf else PosInf)"

definition zero :: "bool \<Rightarrow> jsnum" where
  "zero negative = (if negative then NegZero else Fin 0)"

text \<open>\<open>Number.isFinite(x)\<close> for a number \<open>x\<close>.\<close>

definition isFinite :: "jsnum \<Rightarrow> bool" where
  "isFinite x = (case x of Fin _ \<Rightarrow> True | NegZero \<Rightarrow> True | _ \<Rightarrow> False)"

text \<open>ToBoolean of a number: NaN and the two zeros are falsy.\<close>

definition truthy_num :: "jsnum \<Rightarrow> bool" where
  "truthy_num x = (x \<noteq> NaN \<and> x \<noteq> NegZero \<and> x \<noteq> Fin 0)"

text \<open>
  Rounding of an exact rational result to binary64, to nearest with ties to even.
  \<open>ilog2 n\<close> is the position of the highest set bit of \<open>n\<close>, \<open>flog2 a\<close> the binary
  exponent of a positive rational (the \<open>e\<close> with \<open>2^e \<le> a < 2^(e+1)\<close>), \<open>rne\<close> rounds a
  non-negative rational to the nearest integer, ties to even. A binary64 value with
  exponent \<open>e\<close> is a multiple of \<open>2^(e-52)\<close>; exponents below -1022 are subnormal and
  share the spacing \<open>2^(-1074)\<close>; a rounded magnitude of \<open>2^1024\<close> or more overflows.
\<close>

fun ilog2 :: "nat \<Rightarrow> nat" where
  "ilog2 n = (if n < 2 then 0 else Suc (ilog2 (n div 2)))"

declare ilog2.simps [simp del]

definition flog2 :: "rat \<Rightarrow> int" where
  "flog2 a = (if 1 \<le> a then int (ilog2 (nat \<lfloor>a\<rfloor>))
              else - int (ilog2 (nat \<lceil>1 / a\<rceil> - 1)) - 1)"

definition rne :: "rat \<Rightarrow> int" where
  "rne x = (let f = \<lfloor>x\<rfloor>; d = x - of_int f in
     if d < 1 / 2 then f else if 1 / 2 < d then f + 1 else if even f then f else f + 1)"

definition fl :: "rat \<Rightarrow> jsnum" where
  "fl r = (if r = 0 then Fin 0 else
     let a = \<bar>r\<bar>; e = max (flog2 a) (- 1022); q = 2 powi (e - 52);
         m = of_int (rne (a / q)) * q
     in if 2 ^ 1024 \<le> m then inf (r < 0)
        else if m = 0 then zero (r < 0)
        else Fin (if 0 < r then m else - m))"

text \<open>The arithmetic of the source: \<open>a - b\<close>, \<open>a + b\<close>, \<open>a / b\<close>, \<open>a * b\<close>, \<open>Math.abs(a)\<close>.\<close>

definition fsub :: "jsnum \<Rightarrow> jsnum \<Rightarrow> jsnum" where
  "fsub a b =
     (if a = NaN \<or> b = NaN then NaN
      else if isInf a then (if isInf b \<and> signbit a = signbit b then NaN else a)
      else if isInf b then inf (\<not> signbit b)
      else if rv a - rv b = 0 then zero (a = NegZero \<and> b = Fin 0)
      else fl (rv a - rv b))"

definition fadd :: "jsnum \<Rightarrow> jsnum \<Rightarrow> jsnum" where
  "fadd a b =
     (if a = NaN \<or> b = NaN then NaN
      else if isInf a then (if isInf b \<and> signbit a \<noteq> signbit b then NaN else a)
      else if isInf b then b
      else if rv a + rv b = 0 then zero (signbit a \<and> signbit b)
      else fl (rv a + rv b))"

definition fdiv :: "jsnum \<Rightarrow> jsnum \<Rightarrow> jsnum" where
  "fdiv a b =
     (if a = NaN \<or> b = NaN then NaN
      else if isInf a then (if isInf b then NaN else inf (signbit a \<noteq> signbit b))
      else if isInf b then zero (signbit a \<noteq> signbit b)
      else if rv b = 0 then (if rv a = 0 then NaN else inf (signbit a \<noteq> signbit b))
      else if rv a = 0 then zero (signbit a \<noteq> signbit b)
      else fl (rv a / rv b))"

definition fmul :: "jsnum \<Rightarrow> jsnum \<Rightarrow> jsnum" where
  "fmul a b =
     (if a = NaN \<or> b = NaN then NaN
      else if isInf a \<or> isInf b then
        (if (isFinite a \<and> rv a = 0) \<or> (isFinite b \<and> rv b = 0) then NaN
         else inf (signbit a \<noteq> signbit b))
      else if rv a = 0 \<or> rv b = 0 then zero (signbit a \<noteq> signbit b)
      else fl (rv a * rv b))"

definition fabs :: "jsnum \<Rightarrow> jsnum" where
  "fabs a = (case a of NaN \<Rightarrow> NaN | PosInf \<Rightarrow> PosInf | NegInf \<Rightarrow> PosInf
             | NegZero \<Rightarrow> Fin 0 | Fin r \<Rightarrow> Fin \<bar>r\<bar>)"

text \<open>
  The comparisons \<open>a < b\<close> and \<open>a \<le> b\<close> of two numbers: false when either is NaN, the
  two zeros equal. \<open>js_gt a b\<close> is the source's \<open>a > b\<close>, \<open>js_ge a b\<close> its \<open>a >= b\<close>.
\<close>

definition js_lt :: "jsnum \<Rightarrow> jsnum \<Rightarrow> bool" where
  "js_lt a b = (a \<noteq> NaN \<and> b \<noteq> NaN \<and>
     (if a = PosInf \<or> b = NegInf then False
      else if a = NegInf \<or> b = PosInf then True
      else rv a < rv b))"

definition js_le :: "jsnum \<Rightarrow> jsnum \<Rightarrow> bool" where
  "js_le a b = (a \<noteq> NaN \<and> b \<noteq> NaN \<and>
     (if a = NegInf \<or> b = PosInf then True
      else if a = PosInf \<or> b = NegInf then False
      else rv a \<le> rv b))"

definition js_gt :: "jsnum \<Rightarrow> jsnum \<Rightarrow> bool" where
  "js_gt a b = js_lt b a"

definition js_ge :: "jsnum \<Rightarrow> jsnum \<Rightarrow> bool" where
  "js_ge a b = js_le b a"

text \<open>
  \<open>Number(s)\<close> for a string \<open>s\<close> (ECMA-262, StringToNumber): white space and line
  terminators are trimmed; the empty string is \<open>+0\<close>; \<open>0x\<close>, \<open>0o\<close> and \<open>0b\<close> literals
  carry no sign; a decimal literal is an optional sign followed by \<open>Infinity\<close> or by
  digits with an optional fraction and an optional exponent; anything else is NaN.
  The mathematical value of the literal is rounded to binary64.
\<close>

definition isWhiteSpace :: "16 word \<Rightarrow> bool" where
  "isWhiteSpace c = (c \<in> {0x9, 0xA, 0xB, 0xC, 0xD, 0x20, 0xA0, 0x1680, 0x2028, 0x2029,
                            0x202F, 0x205F, 0x3000, 0xFEFF} \<or> (0x2000 \<le> c \<and> c \<le> 0x200A))"

definition trim :: "jsstring \<Rightarrow> jsstring" where
  "trim s = rev (dropWhile isWhiteSpace (rev (dropWhile isWhiteSpace s)))"

definition digitVal :: "16 word \<Rightarrow> nat option" where
  "digitVal c =
     (if 0x30 \<le> c \<and> c \<le> 0x39 then Some (unat c - 0x30)
      else if 0x61 \<le> c \<and> c \<le> 0x66 then Some (unat c - 0x61 + 10)
      else if 0x41 \<le> c \<and> c \<le> 0x46 then Some (unat c - 0x41 + 10)
      else None)"

definition isDigitOf :: "nat \<Rightarrow> 16 word \<Rightarrow> bool" where
  "isDigitOf base c = (case digitVal c of Some d \<Rightarrow> d < base | None \<Rightarrow> False)"

definition digitsVal :: "nat \<Rightarrow> jsstring \<Rightarrow> nat" where
  "digitsVal base ds = foldl (\<lambda>acc c. acc * base + (case digitVal c of Some d \<Rightarrow> d | None \<Rightarrow> 0)) 0 ds"

definition scale10 :: "rat \<Rightarrow> int \<Rightarrow> rat" where
  "scale10 x e = (if 0 \<le> e then x * 10 ^ nat e else x / 10 ^ nat (- e))"

text \<open>The exponent part after the digits: absent, or \<open>e\<close>/\<open>E\<close>, an optional sign and digits.\<close>

definition exponentPart :: "jsstring \<Rightarrow> int option" where
  "exponentPart s =
     (case s of [] \<Rightarrow> Some 0
      | c # t \<Rightarrow>
          if c = 0x65 \<or> c = 0x45 then
            (let (negative, ds) = (case t of [] \<Rightarrow> (False, [])
                    | d # u \<Rightarrow> if d = 0x2D then (True, u) else if d = 0x2B then (False, u)
                               else (False, t))
             in if ds \<noteq> [] \<and> list_all (isDigitOf 10) ds
                then Some (if negative then - int (digitsVal 10 ds) else int (digitsVal 10 ds))
                else None)
          else None)"

text \<open>StrUnsignedDecimalLiteral: the mathematical value, or \<open>None\<close> when it does not parse.\<close>

definition unsignedDecimal :: "jsstring \<Rightarrow> rat option" where
  "unsignedDecimal s =
     (let ip = takeWhile (isDigitOf 10) s; r1 = dropWhile (isDigitOf 10) s;
          (fp, r2) = (case r1 of [] \<Rightarrow> ([], r1)
               | c # t \<Rightarrow> if c = 0x2E then (takeWhile (isDigitOf 10) t, dropWhile (isDigitOf 10) t)
                          else ([], r1))
      in if ip = [] \<and> fp = [] then None
         else (case exponentPart r2 of None \<Rightarrow> None
               | Some e \<Rightarrow>
                   Some (scale10 (of_nat (digitsVal 10 ip)
                                  + of_nat (digitsVal 10 fp) / 10 ^ length fp) e)))"

definition nonDecimal :: "jsstring \<Rightarrow> rat option" where
  "nonDecimal s =
     (case s of
        z # x # ds \<Rightarrow>
          (let base = (if x = 0x78 \<or> x = 0x58 then 16 else if x = 0x6F \<or> x = 0x4F then 8
                       else if x = 0x62 \<or> x = 0x42 then 2 else 0)
           in if z = 0x30 \<and> base \<noteq> 0 \<and> ds \<noteq> [] \<and> list_all (isDigitOf base) ds
              then Some (of_nat (digitsVal base ds)) else None)
      | _ \<Rightarrow> None)"

definition signedDecimal :: "jsstring \<Rightarrow> jsnum" where
  "signedDecimal s =
     (let (negative, u) = (case s of [] \<Rightarrow> (False, [])
             | c # t \<Rightarrow> if c = 0x2D then (True, t) else if c = 0x2B then (False, t)
                        else (False, s))
      in if u = str ''Infinity'' then inf negative
         else (case unsignedDecimal u of None \<Rightarrow> NaN
               | Some mv \<Rightarrow> if mv = 0 then zero negative
                            else fl (if negative then - mv else mv)))"

definition Number :: "jsstring \<Rightarrow> jsnum" where
  "Number s =
     (let t = trim s in
      if t = [] then Fin 0
      else (case nonDecimal t of Some mv \<Rightarrow> fl mv | None \<Rightarrow> signedDecimal t))"

subsection \<open>Points and the latest pair\<close>

text \<open>One observation \<open>{ date: parts[0], value: v }\<close> of parseFredCsv.\<close>

record point =
  date :: jsstring
  "value" :: jsnum

text \<open>The object \<open>{ latest: ..., previous: ... }\<close> returned by latestPair; \<open>None\<close> is null.\<close>

record latest_pair =
  latest :: "point option"
  previous :: "point option"

text \<open>
  ticker.js, latestPair:
  \<^verbatim>\<open>
  if (!pts.length) return { latest: null, previous: null };
  return { latest: pts[pts.length - 1],
           previous: pts.length > 1 ? pts[pts.length - 2] : null };
  \<close>
  Both index reads are in range on the branch that makes them.
\<close>

definition latestPair :: "point list \<Rightarrow> latest_pair" where
  "latestPair pts =
     (if length pts = 0 then \<lparr>latest = None, previous = None\<rparr>
      else \<lparr>latest = Some (pts ! (length pts - 1)),
            previous = (if length pts > 1 then Some (pts ! (length pts - 2)) else None)\<rparr>)"

section \<open>Payload decoder\<close>

text \<open>
  Errors of the ticker pipeline as values. The first four are raised by the platform:
  a rejected \<open>fetch\<close>, a rejected \<open>r.text()\<close> or \<open>r.json()\<close> (or a \<open>TypeError\<close> on reading
  a member of a \<open>null\<close> body), the \<open>URIError\<close> of \<open>encodeURIComponent\<close> and
  \<open>decodeURIComponent\<close>, and the \<open>InvalidCharacterError\<close> of \<open>atob\<close>. The others are the
  \<open>Error\<close> objects the source creates: \<open>'Codetabs HTTP ' + r.status\<close>,
  \<open>'AllOrigins/get HTTP ' + r.status\<close>, \<open>'AllOrigins/get empty'\<close>,
  \<open>'AllOrigins/raw HTTP ' + r.status\<close> and \<open>'No data'\<close> in ticker.js, and
  \<open>method + ' failed: ' + res.status\<close> in steam-fetch.js. \<open>WriteError\<close> is what
  \<open>fs.writeFileSync\<close> raises.
\<close>

datatype js_error =
    NetworkError
  | BodyError
  | URIError
  | InvalidCharacterError
  | Codetabs_HTTP nat
  | AllOrigins_get_HTTP nat
  | AllOrigins_get_empty
  | AllOrigins_raw_HTTP nat
  | No_data
  | Method_failed jsstring nat
  | WriteError

text \<open>
  \<open>s.indexOf(p)\<close>: the least position at which \<open>p\<close> occurs in \<open>s\<close>, or \<open>-1\<close>.
\<close>

fun indexFrom :: "nat \<Rightarrow> 'a list \<Rightarrow> 'a list \<Rightarrow> int" where
  "indexFrom k p [] = (if p = [] then int k else - 1)"
| "indexFrom k p (c # s) = (if prefix p (c # s) then int k else indexFrom (Suc k) p s)"

definition indexOf :: "'a list \<Rightarrow> 'a list \<Rightarrow> int" where
  "indexOf s p = indexFrom 0 p s"

text \<open>
  \<open>atob(data)\<close> (WHATWG forgiving-base64 decode): ASCII white space is removed; when the
  length is then a multiple of 4, one or two trailing \<open>=\<close> are removed; a length of 1
  modulo 4, or a character outside the base64 alphabet, raises
  \<open>InvalidCharacterError\<close>; otherwise every 4 characters give 3 bytes, a rest of 3
  characters gives 2 bytes and a rest of 2 characters gives 1 byte.
\<close>

definition isAsciiWhitespace :: "16 word \<Rightarrow> bool" where
  "isAsciiWhitespace c = (c \<in> {0x9, 0xA, 0xC, 0xD, 0x20})"

definition b64val :: "16 word \<Rightarrow> nat option" where
  "b64val c =
     (if 0x41 \<le> c \<and> c \<le> 0x5A then Some (unat c - 0x41)
      else if 0x61 \<le> c \<and> c \<le> 0x7A then Some (unat c - 0x61 + 26)
      else if 0x30 \<le> c \<and> c \<le> 0x39 then Some (unat c - 0x30 + 52)
      else if c = 0x2B then Some 62
      else if c = 0x2F then Some 63
      else None)"

fun b64bytes :: "nat list \<Rightarrow> jsstring" where
  "b64bytes (a # b # c # d # r) =
     (let n = ((a * 64 + b) * 64 + c) * 64 + d
      in of_nat (n div 65536) # of_nat (n div 256 mod 256) # of_nat (n mod 256) # b64bytes r)"
| "b64bytes [a, b, c] =
     (let n = (a * 64 + b) * 64 + c in [of_nat (n div 1024), of_nat (n div 4 mod 256)])"
| "b64bytes [a, b] = [of_nat ((a * 64 + b) div 16)]"
| "b64bytes _ = []"

definition stripPadding :: "jsstring \<Rightarrow> jsstring" where
  "stripPadding d =
     (if length d mod 4 = 0 then
        (case rev d of
           p # q # t \<Rightarrow> if p = 0x3D \<and> q = 0x3D then rev t
                        else if p = 0x3D then rev (q # t) else d
         | _ \<Rightarrow> d)
      else d)"

definition atob :: "jsstring \<Rightarrow> js_error + jsstring" where
  "atob data =
     (let d = stripPadding (filter (\<lambda>c. \<not> isAsciiWhitespace c) data)
      in if length d mod 4 = 1 \<or> \<not> list_all (\<lambda>c. b64val c \<noteq> None) d
         then Inl InvalidCharacterError
         else Inr (b64bytes (List.map_filter b64val d)))"

text \<open>
  \<open>decodeURIComponent(s)\<close> (ECMA-262, Decode): \<open>%XX\<close> escapes become octets, any other
  code unit is kept; an octet below 0x80 is one code unit; a lead octet announces one
  to three continuation octets, which must follow as escapes and form a valid UTF-8
  encoding (no overlong form, no surrogate, at most U+10FFFF), decoded to one code
  unit or a surrogate pair. Everything else raises \<open>URIError\<close>.
\<close>

datatype token = Lit "16 word" | Oct nat

fun unescape :: "jsstring \<Rightarrow> token list option" where
  "unescape [] = Some []"
| "unescape (c # s) =
     (if c = 0x25 then
        (case s of
           h1 # h2 # rest \<Rightarrow>
             (case (digitVal h1, digitVal h2) of
                (Some a, Some b) \<Rightarrow> map_option ((#) (Oct (16 * a + b))) (unescape rest)
              | _ \<Rightarrow> None)
         | _ \<Rightarrow> None)
      else map_option ((#) (Lit c)) (unescape s))"

definition utf16 :: "nat \<Rightarrow> jsstring" where
  "utf16 cp =
     (if cp < 0x10000 then [of_nat cp]
      else [of_nat (0xD800 + (cp - 0x10000) div 0x400),
            of_nat (0xDC00 + (cp - 0x10000) mod 0x400)])"

definition validCodePoint :: "nat \<Rightarrow> nat \<Rightarrow> bool" where
  "validCodePoint lowest cp =
     (lowest \<le> cp \<and> cp \<le> 0x10FFFF \<and> \<not> (0xD800 \<le> cp \<and> cp \<le> 0xDFFF))"

text \<open>
  \<open>utf8 need acc lowest ts\<close>: \<open>need\<close> continuation octets are still expected for the code
  point accumulated in \<open>acc\<close>, whose shortest encoding has this length when it is at
  least \<open>lowest\<close>.
\<close>

fun utf8 :: "nat \<Rightarrow> nat \<Rightarrow> nat \<Rightarrow> token list \<Rightarrow> jsstring option" where
  "utf8 need acc lowest [] = (if need = 0 then Some [] else None)"
| "utf8 need acc lowest (Lit c # ts) =
     (if need = 0 then map_option ((#) c) (utf8 0 0 0 ts) else None)"
| "utf8 need acc lowest (Oct b # ts) =
     (if need = 0 then
        (if b < 0x80 then map_option ((#) (of_nat b)) (utf8 0 0 0 ts)
         else if 0xC0 \<le> b \<and> b < 0xE0 then utf8 1 (b - 0xC0) 0x80 ts
         else if 0xE0 \<le> b \<and> b < 0xF0 then utf8 2 (b - 0xE0) 0x800 ts
         else if 0xF0 \<le> b \<and> b < 0xF8 then utf8 3 (b - 0xF0) 0x10000 ts
         else None)
      else if 0x80 \<le> b \<and> b < 0xC0 then
        (let cp = acc * 64 + (b - 0x80)
         in if need = 1 then
              (if validCodePoint lowest cp then map_option ((@) (utf16 cp)) (utf8 0 0 0 ts)
               else None)
            else utf8 (need - 1) cp lowest ts)
      else None)"

definition decodeURIComponent :: "jsstring \<Rightarrow> js_error + jsstring" where
  "decodeURIComponent s =
     (case unescape s of None \<Rightarrow> Inl URIError
      | Some ts \<Rightarrow> (case utf8 0 0 0 ts of None \<Rightarrow> Inl URIError | Some r \<Rightarrow> Inr r))"

text \<open>
  ticker.js, decodeDataPayload:
  \<^verbatim>\<open>
  if (!contents) return '';
  if (contents.indexOf('data:') !== 0) return contents;
  var comma = contents.indexOf(',');
  if (comma === -1) return contents;
  var metadata = contents.slice(0, comma);
  var payload = contents.slice(comma + 1);
  if (metadata.indexOf(';base64') !== -1) return atob(payload);
  return decodeURIComponent(payload);
  \<close>
  There is no \<open>try\<close> in the function: what \<open>atob\<close> or \<open>decodeURIComponent\<close> raises leaves
  it.
\<close>

definition decodeDataPayload :: "jsstring \<Rightarrow> js_error + jsstring" where
  "decodeDataPayload contents =
     (if contents = [] then Inr []
      else if indexOf contents (str ''data:'') \<noteq> 0 then Inr contents
      else let comma = indexOf contents (str '','') in
        if comma = - 1 then Inr contents
        else let metadata = take (nat comma) contents;
                 payload = drop (nat (comma + 1)) contents
             in if indexOf metadata (str '';base64'') \<noteq> - 1 then atob payload
                else decodeURIComponent payload)"

section \<open>Resilient fetcher\<close>

text \<open>
  \<open>encodeURIComponent(s)\<close> (ECMA-262, Encode): letters, digits and \<open>- _ . ! ~ * ' ( )\<close>
  are kept; any other code point is written as the \<open>%XX\<close> escapes of its UTF-8 octets;
  a surrogate that is not part of a pair raises \<open>URIError\<close>.
\<close>

definition uriUnreserved :: "16 word \<Rightarrow> bool" where
  "uriUnreserved c =
     ((0x41 \<le> c \<and> c \<le> 0x5A) \<or> (0x61 \<le> c \<and> c \<le> 0x7A) \<or> (0x30 \<le> c \<and> c \<le> 0x39)
      \<or> c \<in> {0x2D, 0x5F, 0x2E, 0x21, 0x7E, 0x2A, 0x27, 0x28, 0x29})"

definition hexDigit :: "nat \<Rightarrow> 16 word" where
  "hexDigit d = (if d < 10 then of_nat (0x30 + d) else of_nat (0x41 + (d - 10)))"

definition pctEncode :: "nat list \<Rightarrow> jsstring" where
  "pctEncode bs = concat (map (\<lambda>b. [0x25, hexDigit (b div 16), hexDigit (b mod 16)]) bs)"

definition utf8enc :: "nat \<Rightarrow> nat list" where
  "utf8enc cp =
     (if cp < 0x80 then [cp]
      else if cp < 0x800 then [0xC0 + cp div 64, 0x80 + cp mod 64]
      else if cp < 0x10000 then [0xE0 + cp div 4096, 0x80 + cp div 64 mod 64, 0x80 + cp mod 64]
      else [0xF0 + cp div 262144, 0x80 + cp div 4096 mod 64, 0x80 + cp div 64 mod 64,
            0x80 + cp mod 64])"

fun encodeURI :: "jsstring \<Rightarrow> jsstring option" where
  "encodeURI [] = Some []"
| "encodeURI (c # s) =
     (if uriUnreserved c then map_option ((#) c) (encodeURI s)
      else if 0xDC00 \<le> c \<and> c \<le> 0xDFFF then None
      else if 0xD800 \<le> c \<and> c \<le> 0xDBFF then
        (case s of
           [] \<Rightarrow> None
         | d # r \<Rightarrow>
             if 0xDC00 \<le> d \<and> d \<le> 0xDFFF then
               map_option
                 ((@) (pctEncode (utf8enc (0x10000 + (unat c - 0xD800) * 0x400 + (unat d - 0xDC00)))))
                 (encodeURI r)
             else None)
      else map_option ((@) (pctEncode (utf8enc (unat c)))) (encodeURI s))"

definition encodeURIComponent :: "jsstring \<Rightarrow> js_error + jsstring" where
  "encodeURIComponent s = (case encodeURI s of None \<Rightarrow> Inl URIError | Some r \<Rightarrow> Inr r)"

text \<open>
  The network. A \<open>Response\<close> is read through \<open>r.ok\<close>, \<open>r.status\<close>, \<open>r.text()\<close> and
  \<open>r.json()\<close>; the last two are promises and may reject. The type parameter is the shape
  the caller reads from the parsed JSON body; a body of another shape (the member
  access raises \<open>TypeError\<close>) is an \<open>Inl\<close> outcome of \<open>body_json\<close>. The envelope of the
  allorigins \<open>/get\<close> relay is read through its \<open>contents\<close> member, a string; \<open>None\<close> is a
  member that is absent or \<open>null\<close>.

  A \<open>network\<close> gives, for the URL of a request, what \<open>await fetch(url)\<close> gives: a rejection
  or a response. Each transport returns its outcome together with the requests it
  issued, in order. A request that never settles is not modelled.
\<close>

record envelope =
  contents :: "jsstring option"

record 'j response =
  ok :: bool
  status :: nat
  body_text :: "js_error + jsstring"
  body_json :: "js_error + 'j"

type_synonym network = "jsstring \<Rightarrow> js_error + envelope response"

type_synonym 'a traced = "(js_error + 'a) \<times> jsstring list"

text \<open>
  ticker.js, fetchViaCodetabs:
  \<^verbatim>\<open>
  var r = await fetch('https://api.codetabs.com/v1/proxy/?quest=' + encodeURIComponent(url), ...);
  if (!r.ok) throw new Error('Codetabs HTTP ' + r.status);
  return r.text();
  \<close>
\<close>

definition fetchViaCodetabs :: "network \<Rightarrow> jsstring \<Rightarrow> jsstring traced" where
  "fetchViaCodetabs net url =
     (case encodeURIComponent url of
        Inl e \<Rightarrow> (Inl e, [])
      | Inr q \<Rightarrow>
          (let u = str ''https://api.codetabs.com/v1/proxy/?quest='' @ q in
           case net u of
             Inl e \<Rightarrow> (Inl e, [u])
           | Inr r \<Rightarrow> if \<not> ok r then (Inl (Codetabs_HTTP (status r)), [u])
                      else (body_text r, [u])))"

text \<open>
  ticker.js, fetchViaAllOriginsGet:
  \<^verbatim>\<open>
  var r = await fetch('https://api.allorigins.win/get?url=' + encodeURIComponent(url), ...);
  if (!r.ok) throw new Error('AllOrigins/get HTTP ' + r.status);
  var p = await r.json();
  var d = decodeDataPayload(p.contents || '');
  if (!d) throw new Error('AllOrigins/get empty');
  return d;
  \<close>
\<close>

definition fetchViaAllOriginsGet :: "network \<Rightarrow> jsstring \<Rightarrow> jsstring traced" where
  "fetchViaAllOriginsGet net url =
     (case encodeURIComponent url of
        Inl e \<Rightarrow> (Inl e, [])
      | Inr q \<Rightarrow>
          (let u = str ''https://api.allorigins.win/get?url='' @ q in
           case net u of
             Inl e \<Rightarrow> (Inl e, [u])
           | Inr r \<Rightarrow>
               if \<not> ok r then (Inl (AllOrigins_get_HTTP (status r)), [u])
               else (case body_json r of
                       Inl e \<Rightarrow> (Inl e, [u])
                     | Inr p \<Rightarrow>
                         (case decodeDataPayload (orEmpty (contents p)) of
                            Inl e \<Rightarrow> (Inl e, [u])
                          | Inr d \<Rightarrow> if d = [] then (Inl AllOrigins_get_empty, [u])
                                     else (Inr d, [u])))))"

text \<open>
  ticker.js, fetchViaAllOriginsRaw:
  \<^verbatim>\<open>
  var r = await fetch('https://api.allorigins.win/raw?url=' + encodeURIComponent(url), ...);
  if (!r.ok) throw new Error('AllOrigins/raw HTTP ' + r.status);
  return r.text();
  \<close>
\<close>

definition fetchViaAllOriginsRaw :: "network \<Rightarrow> jsstring \<Rightarrow> jsstring traced" where
  "fetchViaAllOriginsRaw net url =
     (case encodeURIComponent url of
        Inl e \<Rightarrow> (Inl e, [])
      | Inr q \<Rightarrow>
          (let u = str ''https://api.allorigins.win/raw?url='' @ q in
           case net u of
             Inl e \<Rightarrow> (Inl e, [u])
           | Inr r \<Rightarrow> if \<not> ok r then (Inl (AllOrigins_raw_HTTP (status r)), [u])
                      else (body_text r, [u])))"

text \<open>
  ticker.js, fetchText:
  \<^verbatim>\<open>
  try { return await fetchViaCodetabs(url); }
  catch (_) {
    try { return await fetchViaAllOriginsGet(url); }
    catch (__) { return fetchViaAllOriginsRaw(url); }
  }
  \<close>
  Each \<open>await\<close> settles before the \<open>catch\<close> runs, so the requests of a later transport
  follow those of the earlier one.
\<close>

definition fetchText :: "network \<Rightarrow> jsstring \<Rightarrow> jsstring traced" where
  "fetchText net url =
     (case fetchViaCodetabs net url of
        (Inr t, l1) \<Rightarrow> (Inr t, l1)
      | (Inl _, l1) \<Rightarrow>
          (case fetchViaAllOriginsGet net url of
             (Inr t, l2) \<Rightarrow> (Inr t, l1 @ l2)
           | (Inl _, l2) \<Rightarrow>
               (case fetchViaAllOriginsRaw net url of (r, l3) \<Rightarrow> (r, l1 @ l2 @ l3))))"

section \<open>Delimited time series parser\<close>

text \<open>\<open>line.split(',')\<close>: the fields between the separators; the empty string has one field.\<close>

fun splitOn :: "'a \<Rightarrow> 'a list \<Rightarrow> 'a list list" where
  "splitOn sep [] = [[]]"
| "splitOn sep (c # s) =
     (if c = sep then [] # splitOn sep s
      else (case splitOn sep s of f # fs \<Rightarrow> (c # f) # fs | [] \<Rightarrow> [[c]]))"

text \<open>
  \<open>csv.split(/\r?\n/)\<close>: a separator is a line feed, together with the carriage return
  right before it when there is one.
\<close>

fun splitLines :: "jsstring \<Rightarrow> jsstring list" where
  "splitLines [] = [[]]"
| "splitLines [c] = (if c = 0x0A then [[], []] else [[c]])"
| "splitLines (c # d # s) =
     (if c = 0x0D \<and> d = 0x0A then [] # splitLines s
      else if c = 0x0A then [] # splitLines (d # s)
      else (case splitLines (d # s) of l # ls \<Rightarrow> (c # l) # ls | [] \<Rightarrow> [[c]]))"

text \<open>
  ticker.js, parseFredCsv:
  \<^verbatim>\<open>
  var lines = csv.split(/\r?\n/).filter(Boolean);
  if (lines.length < 2) return [];
  return lines.slice(1).map(function (line) {
    var parts = line.split(',');
    if (parts.length < 2) return null;
    var v = Number(parts[1]);
    return Number.isFinite(v) ? { date: parts[0], value: v } : null;
  }).filter(Boolean);
  \<close>
  \<open>parseLine\<close> is the callback of \<open>map\<close>; \<open>None\<close> is its \<open>null\<close>.
\<close>

definition parseLine :: "jsstring \<Rightarrow> point option" where
  "parseLine line =
     (let parts = splitOn 0x2C line in
      if length parts < 2 then None
      else (let v = Number (parts ! 1) in
            if isFinite v then Some \<lparr>date = parts ! 0, value = v\<rparr> else None))"

definition parseFredCsv :: "jsstring \<Rightarrow> point list" where
  "parseFredCsv csv =
     (let lines = filter (\<lambda>l. l \<noteq> []) (splitLines csv) in
      if length lines < 2 then [] else List.map_filter parseLine (drop 1 lines))"

text \<open>
  ticker.js, fetchFred:
  \<^verbatim>\<open>
  var url = 'https://fred.stlouisfed.org/graph/fredgraph.csv?id=' + encodeURIComponent(id);
  var csv = await fetchText(url);
  var pts = parseFredCsv(csv);
  if (!pts.length) throw new Error('No data');
  return pts;
  \<close>
\<close>

definition fetchFred :: "network \<Rightarrow> jsstring \<Rightarrow> js_error + point list" where
  "fetchFred net sid =
     (case encodeURIComponent sid of
        Inl e \<Rightarrow> Inl e
      | Inr q \<Rightarrow>
          (case fst (fetchText net (str ''https://fred.stlouisfed.org/graph/fredgraph.csv?id='' @ q)) of
             Inl e \<Rightarrow> Inl e
           | Inr csv \<Rightarrow> (let pts = parseFredCsv csv in
                          if length pts = 0 then Inl No_data else Inr pts)))"

section \<open>Ticker configuration, DOM and render sink\<close>

text \<open>
  One entry of \<open>fredTickers\<close>; \<open>suffix\<close> is \<open>None\<close> where the entry has no such member.
\<close>

record ticker =
  attr :: jsstring
  fred :: jsstring
  label :: jsstring
  decimals :: nat
  suffix :: "jsstring option"

definition fredTickers :: "ticker list" where
  "fredTickers =
     [\<lparr>attr = str ''SP500'', fred = str ''SP500'', label = str ''S&P 500'', decimals = 0,
       suffix = None\<rparr>,
      \<lparr>attr = str ''NASDAQ'', fred = str ''NASDAQCOM'', label = str ''NASDAQ'', decimals = 0,
       suffix = None\<rparr>,
      \<lparr>attr = str ''10Y'', fred = str ''DGS10'', label = str ''10Y YIELD'', decimals = 3,
       suffix = Some (str ''%'')\<rparr>,
      \<lparr>attr = str ''GOLD'', fred = str ''GOLDAMGBD228NLBM'', label = str ''GOLD'', decimals = 2,
       suffix = None\<rparr>,
      \<lparr>attr = str ''VIX'', fred = str ''VIXCLS'', label = str ''VIX'', decimals = 2,
       suffix = None\<rparr>,
      \<lparr>attr = str ''EURUSD'', fred = str ''DEXUSEU'', label = str ''EUR/USD'', decimals = 4,
       suffix = None\<rparr>,
      \<lparr>attr = str ''CRUDE'', fred = str ''DCOILWTICO'', label = str ''WTI CRUDE'', decimals = 2,
       suffix = None\<rparr>,
      \<lparr>attr = str ''FEDFUNDS'', fred = str ''FEDFUNDS'', label = str ''FED FUNDS'', decimals = 2,
       suffix = Some (str ''%'')\<rparr>]"

text \<open>
  The document, as far as the script reads and writes it: its elements in document
  order, each with its \<open>data-ticker\<close> attribute (\<open>None\<close> when it has none), its text content
  and the tokens of its class list. \<open>querySelectorAll('[data-ticker="' + attr + '"]')\<close>
  selects the elements whose attribute equals \<open>attr\<close>.
\<close>

record element =
  data_ticker :: "jsstring option"
  textContent :: jsstring
  classList :: "jsstring list"

type_synonym document = "element list"

text \<open>\<open>classList.add(token)\<close>: the token is appended unless it is there.\<close>

definition classList_add :: "jsstring \<Rightarrow> jsstring list \<Rightarrow> jsstring list" where
  "classList_add token cl = (if token \<in> set cl then cl else cl @ [token])"

text \<open>
  ticker.js, updateSpans; \<open>updateSpan\<close> is the body of its loop on one selected element:
  \<^verbatim>\<open>
  spans[i].textContent = text;
  spans[i].classList.remove('tick--up', 'tick--down');
  if (direction === 'up') spans[i].classList.add('tick--up');
  if (direction === 'down') spans[i].classList.add('tick--down');
  \<close>
\<close>

definition updateSpan :: "jsstring \<Rightarrow> jsstring option \<Rightarrow> element \<Rightarrow> element" where
  "updateSpan txt direction el =
     (let c0 = filter (\<lambda>t. t \<noteq> str ''tick--up'' \<and> t \<noteq> str ''tick--down'') (classList el);
          c1 = (if direction = Some (str ''up'') then classList_add (str ''tick--up'') c0 else c0);
          c2 = (if direction = Some (str ''down'') then classList_add (str ''tick--down'') c1 else c1)
      in el\<lparr>textContent := txt, classList := c2\<rparr>)"

definition updateSpans :: "jsstring \<Rightarrow> jsstring \<Rightarrow> jsstring option \<Rightarrow> document \<Rightarrow> document" where
  "updateSpans a txt direction doc =
     map (\<lambda>el. if data_ticker el = Some a then updateSpan txt direction el else el) doc"

text \<open>
  What the platform provides to the render sink: \<open>value.toLocaleString(undefined,
  {minimumFractionDigits, maximumFractionDigits})\<close> (the minimum is \<open>None\<close> where the caller
  gives none), \<open>x.toFixed(digits)\<close>, and \<open>JSON.parse\<close> of the chart document followed by the
  member path \<open>data.chart.result[0].meta\<close>, which raises when the text is not JSON or the
  path is missing.
\<close>

record chart_meta =
  regularMarketPrice :: "jsnum option"
  chartPreviousClose :: "jsnum option"
  previousClose :: "jsnum option"

record platform =
  toLocaleString :: "jsnum \<Rightarrow> nat option \<Rightarrow> nat \<Rightarrow> jsstring"
  toFixed :: "jsnum \<Rightarrow> nat \<Rightarrow> jsstring"
  parseChart :: "jsstring \<Rightarrow> js_error + chart_meta"

text \<open>
  ticker.js, fmtTicker:
  \<^verbatim>\<open>
  var f = value.toLocaleString(undefined, { minimumFractionDigits: decimals,
                                            maximumFractionDigits: decimals });
  var t = label + ' ' + f;
  if (suffix) t += suffix;
  if (pct !== null && Number.isFinite(pct)) {
    t += ' ' + (pct >= 0 ? '\u25B2' : '\u25BC') + Math.abs(pct).toFixed(2) + '%';
  }
  return t;
  \<close>
  \<open>percentPart\<close> is what the last \<open>if\<close> appends.
\<close>

definition percentPart :: "platform \<Rightarrow> jsnum \<Rightarrow> jsstring" where
  "percentPart pf pct =
     str '' '' @ [if js_ge pct (Fin 0) then 0x25B2 else 0x25BC] @ toFixed pf (fabs pct) 2 @ str ''%''"

definition fmtTicker ::
  "platform \<Rightarrow> jsstring \<Rightarrow> jsnum \<Rightarrow> nat \<Rightarrow> jsstring option \<Rightarrow> jsnum option \<Rightarrow> jsstring" where
  "fmtTicker pf lbl val dec sfx pct =
     (let f = toLocaleString pf val (Some dec) dec;
          t0 = lbl @ str '' '' @ f;
          t1 = (case sfx of None \<Rightarrow> t0 | Some x \<Rightarrow> if x \<noteq> [] then t0 @ x else t0)
      in case pct of
           None \<Rightarrow> t1
         | Some p \<Rightarrow> if isFinite p then t1 @ percentPart pf p else t1)"

section \<open>Orchestrator\<close>

text \<open>
  ticker.js, loadTicker, the callback of \<open>results.forEach\<close>:
  \<^verbatim>\<open>
  if (r.status !== 'fulfilled') return;
  var cfg = r.value.cfg;
  var pair = latestPair(r.value.pts);
  if (!pair.latest) return;
  var val = pair.latest.value;
  var pct = pair.previous ? ((val - pair.previous.value) / Math.abs(pair.previous.value)) * 100 : null;
  updateSpans(cfg.attr, fmtTicker(cfg.label, val, cfg.decimals, cfg.suffix, pct),
              pct === null ? null : (pct >= 0 ? 'up' : 'down'));
  \<close>
  \<open>percentChange\<close> is the expression assigned to \<open>pct\<close>, \<open>direction\<close> the third argument of
  \<open>updateSpans\<close> (the same expression in the chart branch), \<open>rendered\<close> the text and the
  direction the callback passes to \<open>updateSpans\<close> (\<open>None\<close> when it returns before). A settled
  result is \<open>Inl\<close> when rejected and \<open>Inr\<close> with \<open>{ cfg, pts }\<close> when fulfilled.
\<close>

definition percentChange :: "jsnum \<Rightarrow> point option \<Rightarrow> jsnum option" where
  "percentChange val prev =
     (case prev of
        None \<Rightarrow> None
      | Some p \<Rightarrow> Some (fmul (fdiv (fsub val (value p)) (fabs (value p))) (Fin 100)))"

definition direction :: "jsnum option \<Rightarrow> jsstring option" where
  "direction pct =
     (case pct of
        None \<Rightarrow> None
      | Some p \<Rightarrow> Some (if js_ge p (Fin 0) then str ''up'' else str ''down''))"

definition rendered :: "platform \<Rightarrow> ticker \<Rightarrow> point list \<Rightarrow> (jsstring \<times> jsstring option) option" where
  "rendered pf cfg pts =
     (let pair = latestPair pts in
      case latest pair of
        None \<Rightarrow> None
      | Some l \<Rightarrow>
          (let val = value l; pct = percentChange val (previous pair)
           in Some (fmtTicker pf (label cfg) val (decimals cfg) (suffix cfg) pct, direction pct)))"

definition renderResult :: "platform \<Rightarrow> js_error + ticker \<times> point list \<Rightarrow> document \<Rightarrow> document" where
  "renderResult pf r doc =
     (case r of
        Inl _ \<Rightarrow> doc
      | Inr (cfg, pts) \<Rightarrow>
          (case rendered pf cfg pts of
             None \<Rightarrow> doc
           | Some (txt, dir) \<Rightarrow> updateSpans (attr cfg) txt dir doc))"

text \<open>
  The FRED part of loadTicker:
  \<^verbatim>\<open>
  var results = await Promise.allSettled(fredTickers.map(function (cfg) {
    return fetchFred(cfg.fred).then(function (pts) { return { cfg: cfg, pts: pts }; });
  }));
  results.forEach(...);
  \<close>
  \<open>Promise.allSettled\<close> keeps the outcome of every promise, in the order of the list.
\<close>

definition settleAll :: "network \<Rightarrow> ticker list \<Rightarrow> (js_error + ticker \<times> point list) list" where
  "settleAll net cfgs =
     map (\<lambda>cfg. case fetchFred net (fred cfg) of Inl e \<Rightarrow> Inl e | Inr pts \<Rightarrow> Inr (cfg, pts)) cfgs"

definition fredPart :: "platform \<Rightarrow> network \<Rightarrow> ticker list \<Rightarrow> document \<Rightarrow> document" where
  "fredPart pf net cfgs doc = foldl (\<lambda>d r. renderResult pf r d) doc (settleAll net cfgs)"

text \<open>
  The CoinGecko part; the request goes to the provider directly, so its outcome is one
  value. \<open>d.bitcoin\<close> is read through its two members.
  \<^verbatim>\<open>
  try {
    var resp = await fetch('https://api.coingecko.com/...');
    if (resp.ok) {
      var d = await resp.json();
      var price = d.bitcoin.usd;
      var chg = d.bitcoin.usd_24h_change;
      var arrow = chg >= 0 ? '\u25B2' : '\u25BC';
      updateSpans('BTC', 'BTC ' + price.toLocaleString(undefined, { maximumFractionDigits: 0 })
                  + ' ' + arrow + Math.abs(chg).toFixed(2) + '%', chg >= 0 ? 'up' : 'down');
    }
  } catch (_) {}
  \<close>
\<close>

record bitcoin =
  usd :: jsnum
  usd_24h_change :: jsnum

definition btcPart :: "platform \<Rightarrow> js_error + bitcoin response \<Rightarrow> document \<Rightarrow> document" where
  "btcPart pf outcome doc =
     (case outcome of
        Inl _ \<Rightarrow> doc
      | Inr resp \<Rightarrow>
          if ok resp then
            (case body_json resp of
               Inl _ \<Rightarrow> doc
             | Inr d \<Rightarrow>
                 (let price = usd d; chg = usd_24h_change d
                  in updateSpans (str ''BTC'')
                       (str ''BTC '' @ toLocaleString pf price None 0 @ percentPart pf chg)
                       (Some (if js_ge chg (Fin 0) then str ''up'' else str ''down'')) doc))
          else doc)"

text \<open>
  The chart part:
  \<^verbatim>\<open>
  try {
    var raw = await fetchText('https://query1.finance.yahoo.com/v8/finance/chart/%5EDJI?range=2d&interval=1d');
    var data = JSON.parse(raw);
    var res = data.chart.result[0];
    var p = res.meta.regularMarketPrice;
    var prev = res.meta.chartPreviousClose || res.meta.previousClose;
    var pct2 = prev ? ((p - prev) / prev) * 100 : null;
    updateSpans('DJIA', fmtTicker('DJIA', p, 0, null, pct2),
                pct2 === null ? null : (pct2 >= 0 ? 'up' : 'down'));
  } catch (_) {}
  \<close>
  A missing \<open>regularMarketPrice\<close> makes \<open>value.toLocaleString\<close> in fmtTicker raise, before
  updateSpans is called.
\<close>

definition orElse :: "jsnum option \<Rightarrow> jsnum option \<Rightarrow> jsnum option" where
  "orElse a b = (case a of None \<Rightarrow> b | Some x \<Rightarrow> if truthy_num x then Some x else b)"

definition djiaPart :: "platform \<Rightarrow> network \<Rightarrow> document \<Rightarrow> document" where
  "djiaPart pf net doc =
     (case fst (fetchText net
            (str ''https://query1.finance.yahoo.com/v8/finance/chart/%5EDJI?range=2d&interval=1d'')) of
        Inl _ \<Rightarrow> doc
      | Inr raw \<Rightarrow>
          (case parseChart pf raw of
             Inl _ \<Rightarrow> doc
           | Inr meta \<Rightarrow>
               (case regularMarketPrice meta of
                  None \<Rightarrow> doc
                | Some p \<Rightarrow>
                    (let prev = orElse (chartPreviousClose meta) (previousClose meta);
                         pct2 = (case prev of
                                   None \<Rightarrow> None
                                 | Some q \<Rightarrow> if truthy_num q
                                             then Some (fmul (fdiv (fsub p q) q) (Fin 100))
                                             else None)
                     in updateSpans (str ''DJIA'') (fmtTicker pf (str ''DJIA'') p 0 None pct2)
                          (direction pct2) doc))))"

definition loadTicker ::
  "platform \<Rightarrow> network \<Rightarrow> js_error + bitcoin response \<Rightarrow> document \<Rightarrow> document" where
  "loadTicker pf net coingecko doc =
     djiaPart pf net (btcPart pf coingecko (fredPart pf net fredTickers doc))"


section \<open>Batch script (steam-fetch.js)\<close>

text \<open>
  \<open>Math.round(x)\<close>: the integer nearest to \<open>x\<close>, ties towards positive infinity; the sign
  of a zero result is the sign of \<open>x\<close>.
\<close>

definition round_num :: "jsnum \<Rightarrow> jsnum" where
  "round_num x =
     (case x of
        Fin r \<Rightarrow> (let n = \<lfloor>r + 1 / 2\<rfloor> in if n = 0 then zero (r < 0) else fl (of_int n))
      | _ \<Rightarrow> x)"

text \<open>
  The Steam Web API reports a game with its playtime in whole minutes. A member the
  response leaves out is \<open>None\<close>. \<open>minutes\<close> is the source's \<open>(g.playtime_forever || 0)\<close>, the
  number that \<open>JSON.parse\<close> made of the minutes.
\<close>

record game =
  appid :: nat
  name :: "jsstring option"
  playtime_forever :: "nat option"
  playtime_2weeks :: "nat option"
  img_icon_url :: "jsstring option"

definition minutes :: "nat option \<Rightarrow> jsnum" where
  "minutes m = (case m of None \<Rightarrow> Fin 0 | Some n \<Rightarrow> fl (of_nat n))"

text \<open>\<open>data.response\<close> of GetOwnedGames and of GetRecentlyPlayedGames.\<close>

record games_response =
  game_count :: "nat option"
  games :: "game list option"

text \<open>\<open>data.response.players[0]\<close> of GetPlayerSummaries.\<close>

record player =
  personaname :: "jsstring option"
  profileurl :: "jsstring option"
  avatarmedium :: "jsstring option"

text \<open>
  What the process finds: the two credentials in \<open>process.env\<close> once the \<open>.env\<close> file has
  been merged in, what \<open>await fetch(url)\<close> gives for each of the three endpoints, the
  string \<open>new Date().toISOString()\<close> gives, and whether \<open>fs.writeFileSync\<close> succeeds.
\<close>

record steam_env =
  STEAM_API_KEY :: "jsstring option"
  STEAM_ID :: "jsstring option"
  ownedGames :: "js_error + games_response response"
  recentlyPlayedGames :: "js_error + games_response response"
  playerSummaries :: "js_error + player option response"
  toISOString :: jsstring
  writable :: bool

text \<open>\<open>!x\<close> for an environment variable: \<open>undefined\<close> and the empty string are falsy.\<close>

definition missing :: "jsstring option \<Rightarrow> bool" where
  "missing x = (case x of None \<Rightarrow> True | Some s \<Rightarrow> s = [])"

text \<open>
  steam-fetch.js, steamGet, on the outcome of its \<open>fetch\<close>:
  \<^verbatim>\<open>
  const res = await fetch(url);
  if (!res.ok) throw new Error(`${method} failed: ${res.status}`);
  return res.json();
  \<close>
  getOwnedGames and getRecentlyPlayed return \<open>data.response\<close> of it; getPlayerSummary
  does the same steps itself and returns \<open>data.response.players[0] || {}\<close>.
\<close>

definition steamGet :: "jsstring \<Rightarrow> js_error + 'j response \<Rightarrow> js_error + 'j" where
  "steamGet method_name outcome =
     (case outcome of
        Inl e \<Rightarrow> Inl e
      | Inr res \<Rightarrow> if \<not> ok res then Inl (Method_failed method_name (status res))
                  else body_json res)"

definition getOwnedGames :: "steam_env \<Rightarrow> js_error + games_response" where
  "getOwnedGames env = steamGet (str ''GetOwnedGames'') (ownedGames env)"

definition getRecentlyPlayed :: "steam_env \<Rightarrow> js_error + games_response" where
  "getRecentlyPlayed env = steamGet (str ''GetRecentlyPlayedGames'') (recentlyPlayedGames env)"

definition getPlayerSummary :: "steam_env \<Rightarrow> js_error + player" where
  "getPlayerSummary env =
     (case steamGet (str ''GetPlayerSummaries'') (playerSummaries env) of
        Inl e \<Rightarrow> Inl e
      | Inr None \<Rightarrow> Inr \<lparr>personaname = None, profileurl = None, avatarmedium = None\<rparr>
      | Inr (Some p) \<Rightarrow> Inr p)"

text \<open>
  \<open>hours m\<close> is \<open>Math.round((m || 0) / 60 * 10) / 10\<close>.
\<close>

definition hours :: "nat option \<Rightarrow> jsnum" where
  "hours m = fdiv (round_num (fmul (fdiv (minutes m) (Fin 60)) (Fin 10))) (Fin 10)"

text \<open>
  \<open>xs.slice().sort(cmp)\<close>: the sort is stable, and \<open>cmp(a, b) > 0\<close> puts \<open>a\<close> after \<open>b\<close>.
\<close>

fun insertBy :: "('a \<Rightarrow> 'a \<Rightarrow> jsnum) \<Rightarrow> 'a \<Rightarrow> 'a list \<Rightarrow> 'a list" where
  "insertBy cmp x [] = [x]"
| "insertBy cmp x (y # ys) =
     (if js_gt (cmp x y) (Fin 0) then y # insertBy cmp x ys else x # y # ys)"

definition sortBy :: "('a \<Rightarrow> 'a \<Rightarrow> jsnum) \<Rightarrow> 'a list \<Rightarrow> 'a list" where
  "sortBy cmp xs = foldr (insertBy cmp) xs []"

record top_entry =
  top_appid :: nat
  top_name :: "jsstring option"
  top_hours :: jsnum
  top_img_icon_url :: jsstring

record recent_entry =
  recent_appid :: nat
  recent_name :: "jsstring option"
  hours_2weeks :: jsnum
  hours_total :: jsnum
  recent_img_icon_url :: jsstring

text \<open>
  steam-fetch.js, the top ten by playtime:
  \<^verbatim>\<open>
  games.slice()
    .sort(function (a, b) { return (b.playtime_forever || 0) - (a.playtime_forever || 0); })
    .slice(0, 10)
    .map(function (g) { return { appid: g.appid, name: g.name,
        hours: Math.round((g.playtime_forever || 0) / 60 * 10) / 10,
        img_icon_url: g.img_icon_url || '' }; });
  \<close>
\<close>

definition topByPlaytime_of :: "game list \<Rightarrow> top_entry list" where
  "topByPlaytime_of gs =
     map (\<lambda>g. \<lparr>top_appid = appid g, top_name = name g, top_hours = hours (playtime_forever g),
                top_img_icon_url = orEmpty (img_icon_url g)\<rparr>)
       (take 10 (sortBy (\<lambda>a b. fsub (minutes (playtime_forever b)) (minutes (playtime_forever a))) gs))"

definition recentGames_of :: "game list \<Rightarrow> recent_entry list" where
  "recentGames_of gs =
     map (\<lambda>g. \<lparr>recent_appid = appid g, recent_name = name g,
                hours_2weeks = hours (playtime_2weeks g),
                hours_total = hours (playtime_forever g),
                recent_img_icon_url = orEmpty (img_icon_url g)\<rparr>) gs"

text \<open>
  steam-fetch.js, the played count and the distribution buckets:
  \<^verbatim>\<open>
  const playedCount = games.filter(function (g) { return (g.playtime_forever || 0) > 0; }).length;
  const buckets = { '100h+': 0, '50-100h': 0, '10-50h': 0, '1-10h': 0, '<1h': 0 };
  games.forEach(function (g) {
    var h = (g.playtime_forever || 0) / 60;
    if (h >= 100) buckets['100h+']++;
    else if (h >= 50) buckets['50-100h']++;
    else if (h >= 10) buckets['10-50h']++;
    else if (h >= 1) buckets['1-10h']++;
    else if (h > 0) buckets['<1h']++;
  });
  \<close>
  The five counters are the fields of \<open>buckets\<close>, in the order of the object literal.
\<close>

record buckets =
  h100_plus :: nat
  h50_100 :: nat
  h10_50 :: nat
  h1_10 :: nat
  under_1h :: nat

definition playedCount_of :: "game list \<Rightarrow> nat" where
  "playedCount_of gs = length (filter (\<lambda>g. js_gt (minutes (playtime_forever g)) (Fin 0)) gs)"

definition bucketStep :: "buckets \<Rightarrow> game \<Rightarrow> buckets" where
  "bucketStep b g =
     (let h = fdiv (minutes (playtime_forever g)) (Fin 60) in
      if js_ge h (Fin 100) then b\<lparr>h100_plus := h100_plus b + 1\<rparr>
      else if js_ge h (Fin 50) then b\<lparr>h50_100 := h50_100 b + 1\<rparr>
      else if js_ge h (Fin 10) then b\<lparr>h10_50 := h10_50 b + 1\<rparr>
      else if js_ge h (Fin 1) then b\<lparr>h1_10 := h1_10 b + 1\<rparr>
      else if js_gt h (Fin 0) then b\<lparr>under_1h := under_1h b + 1\<rparr>
      else b)"

definition buckets_of :: "game list \<Rightarrow> buckets" where
  "buckets_of gs =
     foldl bucketStep \<lparr>h100_plus = 0, h50_100 = 0, h10_50 = 0, h1_10 = 0, under_1h = 0\<rparr> gs"

text \<open>
  The written document:
  \<^verbatim>\<open>
  var output = {
    fetchedAt: new Date().toISOString(),
    profile: { name: profile.personaname || '', profileUrl: profile.profileurl || '',
               avatar: profile.avatarmedium || '' },
    stats: { totalGames: totalGames, totalHours: totalHours, playedCount: playedCount,
             neverPlayed: neverPlayed, playtimeBuckets: buckets },
    recentlyPlayed: recentGames,
    topByPlaytime: topByPlaytime
  };
  \<close>
  with \<open>games = owned.games || []\<close>, \<open>totalGames = owned.game_count || games.length\<close>,
  \<open>totalHours = Math.round(totalMinutes / 60)\<close> for the sum \<open>totalMinutes\<close> of the minutes,
  and \<open>neverPlayed = totalGames - playedCount\<close>.
\<close>

record profile_out =
  profile_name :: jsstring
  profileUrl :: jsstring
  avatar :: jsstring

record stats_out =
  totalGames :: nat
  totalHours :: jsnum
  playedCount :: nat
  neverPlayed :: int
  playtimeBuckets :: buckets

record steam_data =
  fetchedAt :: jsstring
  profile :: profile_out
  stats :: stats_out
  recentlyPlayed :: "recent_entry list"
  topByPlaytime :: "top_entry list"

definition orNil :: "'a list option \<Rightarrow> 'a list" where
  "orNil x = (case x of None \<Rightarrow> [] | Some xs \<Rightarrow> xs)"

definition totalMinutes_of :: "game list \<Rightarrow> jsnum" where
  "totalMinutes_of gs = foldl (\<lambda>total g. fadd total (minutes (playtime_forever g))) (Fin 0) gs"

definition build_output :: "jsstring \<Rightarrow> games_response \<Rightarrow> games_response \<Rightarrow> player \<Rightarrow> steam_data" where
  "build_output stamp owned recent prof =
     (let gs = orNil (games owned);
          total = (case game_count owned of
                     None \<Rightarrow> length gs
                   | Some n \<Rightarrow> if n = 0 then length gs else n)
      in \<lparr>fetchedAt = stamp,
          profile = \<lparr>profile_name = orEmpty (personaname prof),
                     profileUrl = orEmpty (profileurl prof),
                     avatar = orEmpty (avatarmedium prof)\<rparr>,
          stats = \<lparr>totalGames = total,
                   totalHours = round_num (fdiv (totalMinutes_of gs) (Fin 60)),
                   playedCount = playedCount_of gs,
                   neverPlayed = int total - int (playedCount_of gs),
                   playtimeBuckets = buckets_of gs\<rparr>,
          recentlyPlayed = recentGames_of (orNil (games recent)),
          topByPlaytime = topByPlaytime_of gs\<rparr>)"

text \<open>
  The run of the script. \<open>process.exit(1)\<close> ends it when a credential is missing; the
  \<open>catch\<close> of the main pipeline ends it with \<open>process.exit(1)\<close> when one of the three
  requests of \<open>Promise.all\<close> rejects or \<open>fs.writeFileSync\<close> raises; otherwise the process
  ends with status 0 after writing \<open>JSON.stringify(output, null, 2)\<close> to
  \<open>steam-data.json\<close>. \<open>written\<close> is the document whose serialisation is in the file, if
  one was written.
\<close>

record run =
  exit_status :: nat
  written :: "steam_data option"

definition steam_fetch :: "steam_env \<Rightarrow> run" where
  "steam_fetch env =
     (if missing (STEAM_API_KEY env) \<or> missing (STEAM_ID env)
      then \<lparr>exit_status = 1, written = None\<rparr>
      else case getOwnedGames env of
             Inl _ \<Rightarrow> \<lparr>exit_status = 1, written = None\<rparr>
           | Inr owned \<Rightarrow>
               (case getRecentlyPlayed env of
                  Inl _ \<Rightarrow> \<lparr>exit_status = 1, written = None\<rparr>
                | Inr recent \<Rightarrow>
                    (case getPlayerSummary env of
                       Inl _ \<Rightarrow> \<lparr>exit_status = 1, written = None\<rparr>
                     | Inr prof \<Rightarrow>
                         if writable env
                         then \<lparr>exit_status = 0,
                               written = Some (build_output (toISOString env) owned recent prof)\<rparr>
                         else \<lparr>exit_status = 1, written = None\<rparr>)))"


section \<open>The parser as the specification words it\<close>

text \<open>
  The specification's delimited time series parser, for comparison with parseFredCsv:
  the input is newline-delimited text (\<open>joinWith sep\<close> of its lines, the separator being a
  line feed or a carriage return and a line feed); the first line is a header and is
  discarded; each remaining non-empty line is split on commas, the date is the first
  field and the value the second; a line whose value does not parse as a finite number
  is dropped.
\<close>

fun joinWith :: "'a list \<Rightarrow> 'a list list \<Rightarrow> 'a list" where
  "joinWith sep [] = []"
| "joinWith sep [l] = l"
| "joinWith sep (l # m # ls) = l @ sep @ joinWith sep (m # ls)"

text \<open>
  A field parses as a finite number when it holds a numeral whose value is finite. A
  field that is empty, or made of white space only, holds no numeral: it does not
  parse, and its line is malformed. The numerals and their values are those of the
  language (\<open>StringNumericLiteral\<close>, white space around the numeral allowed).
\<close>

definition spec_number :: "jsstring \<Rightarrow> jsnum option" where
  "spec_number field =
     (if trim field = [] then None
      else if isFinite (Number field) then Some (Number field) else None)"

definition spec_parse_line :: "jsstring \<Rightarrow> point option" where
  "spec_parse_line l =
     (if l = [] then None
      else (case splitOn 0x2C l of
              d # v # _ \<Rightarrow> (case spec_number v of
                             Some x \<Rightarrow> Some \<lparr>date = d, value = x\<rparr>
                           | None \<Rightarrow> None)
            | _ \<Rightarrow> None))"

definition spec_parse :: "jsstring list \<Rightarrow> point list" where
  "spec_parse all_lines = List.map_filter spec_parse_line (tl all_lines)"

text \<open>A line with a second field that is empty or made of white space only.\<close>

definition blank_value :: "jsstring \<Rightarrow> bool" where
  "blank_value l = (case splitOn 0x2C l of d # v # _ \<Rightarrow> trim v = [] | _ \<Rightarrow> False)"

section \<open>Scenarios\<close>

text \<open>
  The fetch chain scenario of the specification: the direct relay answers HTTP 500, the
  wrapped relay answers a base64 wrapper with an empty payload, the raw relay answers
  the CSV text. The requested URL is \<open>https://x.test/a.csv\<close>.
\<close>

definition escalation_net :: network where
  "escalation_net u =
     (if u = str ''https://api.codetabs.com/v1/proxy/?quest=https%3A%2F%2Fx.test%2Fa.csv''
      then Inr \<lparr>ok = False, status = 500, body_text = Inr [], body_json = Inl BodyError\<rparr>
      else if u = str ''https://api.allorigins.win/get?url=https%3A%2F%2Fx.test%2Fa.csv''
      then Inr \<lparr>ok = True, status = 200, body_text = Inr [],
                body_json = Inr \<lparr>contents = Some (str ''data:text/csv;base64,'')\<rparr>\<rparr>
      else Inr \<lparr>ok = True, status = 200, body_text = Inr (str ''DATE,V''),
                body_json = Inl BodyError\<rparr>)"

text \<open>Every relay answers with an HTTP error of its own.\<close>

definition exhausted_net :: network where
  "exhausted_net u =
     (if u = str ''https://api.codetabs.com/v1/proxy/?quest=https%3A%2F%2Fx.test%2Fa.csv''
      then Inr \<lparr>ok = False, status = 500, body_text = Inr [], body_json = Inl BodyError\<rparr>
      else if u = str ''https://api.allorigins.win/get?url=https%3A%2F%2Fx.test%2Fa.csv''
      then Inr \<lparr>ok = False, status = 404, body_text = Inr [], body_json = Inl BodyError\<rparr>
      else Inr \<lparr>ok = False, status = 503, body_text = Inr [], body_json = Inl BodyError\<rparr>)"

text \<open>
  The wrapped relay answers a base64 wrapper whose payload is not base64; the direct
  relay answers HTTP 500 and the raw relay answers the CSV text.
\<close>

definition malformed_net :: network where
  "malformed_net u =
     (if u = str ''https://api.codetabs.com/v1/proxy/?quest=https%3A%2F%2Fx.test%2Fa.csv''
      then Inr \<lparr>ok = False, status = 500, body_text = Inr [], body_json = Inl BodyError\<rparr>
      else if u = str ''https://api.allorigins.win/get?url=https%3A%2F%2Fx.test%2Fa.csv''
      then Inr \<lparr>ok = True, status = 200, body_text = Inr [],
                body_json = Inr \<lparr>contents = Some (str ''data:text/plain;base64,!'')\<rparr>\<rparr>
      else Inr \<lparr>ok = True, status = 200, body_text = Inr (str ''DATE,V''),
                body_json = Inl BodyError\<rparr>)"

text \<open>
  A series as the provider sends it: a header, two observations, a missing observation
  (the provider writes a dot) and an empty line; and a network whose relays all answer
  with this text.
\<close>

definition sample_lines :: "jsstring list" where
  "sample_lines =
     [str ''2024-01-02,4742.83'', str ''2024-01-03,.'', [], str ''2024-01-04,4688.68'']"

definition sample_csv :: jsstring where
  "sample_csv = joinWith [0x0A] (str ''DATE,SP500'' # sample_lines)"

definition sample_net :: network where
  "sample_net u = Inr \<lparr>ok = True, status = 200, body_text = Inr sample_csv, body_json = Inl BodyError\<rparr>"

text \<open>
  A series whose only observation has an empty value field, and a network whose relays
  all answer with this text.
\<close>

definition blank_csv :: jsstring where
  "blank_csv = joinWith [0x0A] [str ''DATE,SP500'', str ''2024-01-02,'']"

definition blank_net :: network where
  "blank_net u = Inr \<lparr>ok = True, status = 200, body_text = Inr blank_csv, body_json = Inl BodyError\<rparr>"

text \<open>
  A run of the batch script that succeeds: both credentials, three answers with
  status 200, a library of four games (100 hours, half an hour, none, not reported).
\<close>

definition sample_games :: "game list" where
  "sample_games =
     [\<lparr>appid = 570, name = Some (str ''Dota 2''), playtime_forever = Some 6000,
       playtime_2weeks = Some 90, img_icon_url = Some (str ''a.jpg'')\<rparr>,
      \<lparr>appid = 730, name = Some (str ''Counter-Strike 2''), playtime_forever = Some 30,
       playtime_2weeks = None, img_icon_url = None\<rparr>,
      \<lparr>appid = 440, name = Some (str ''Team Fortress 2''), playtime_forever = Some 0,
       playtime_2weeks = None, img_icon_url = None\<rparr>,
      \<lparr>appid = 620, name = Some (str ''Portal 2''), playtime_forever = None,
       playtime_2weeks = None, img_icon_url = None\<rparr>]"

definition sample_env :: steam_env where
  "sample_env =
     \<lparr>STEAM_API_KEY = Some (str ''0123456789ABCDEF''),
      STEAM_ID = Some (str ''76561198000000000''),
      ownedGames = Inr \<lparr>ok = True, status = 200, body_text = Inr [],
                         body_json = Inr \<lparr>game_count = Some 4, games = Some sample_games\<rparr>\<rparr>,
      recentlyPlayedGames = Inr \<lparr>ok = True, status = 200, body_text = Inr [],
                         body_json = Inr \<lparr>game_count = None, games = Some (take 1 sample_games)\<rparr>\<rparr>,
      playerSummaries = Inr \<lparr>ok = True, status = 200, body_text = Inr [],
                         body_json = Inr (Some \<lparr>personaname = Some (str ''erica''),
                                                 profileurl = None, avatarmedium = None\<rparr>)\<rparr>,
      toISOString = str ''2024-01-05T06:00:00.000Z'',
      writable = True\<rparr>"

text \<open>
  A pass of the ticker in which only the S&P 500 series can be fetched (the direct relay
  answers its request with the sample series, every other request is rejected), on a
  page with one element for the S&P 500 and one for the NASDAQ.
\<close>

definition isolation_net :: network where
  "isolation_net u =
     (if u = str ''https://api.codetabs.com/v1/proxy/?quest=https%3A%2F%2Ffred.stlouisfed.org%2Fgraph%2Ffredgraph.csv%3Fid%3DSP500''
      then Inr \<lparr>ok = True, status = 200, body_text = Inr sample_csv, body_json = Inl BodyError\<rparr>
      else Inl NetworkError)"

definition sample_platform :: platform where
  "sample_platform =
     \<lparr>toLocaleString = (\<lambda>v lo hi. str ''4,689''),
      toFixed = (\<lambda>v digits. str ''1.14''),
      parseChart = (\<lambda>raw. Inl BodyError)\<rparr>"

definition sample_page :: document where
  "sample_page =
     [\<lparr>data_ticker = Some (str ''SP500''), textContent = str ''S&P 500 --'', classList = []\<rparr>,
      \<lparr>data_ticker = Some (str ''NASDAQ''), textContent = str ''NASDAQ --'',
       classList = [str ''tick--up'']\<rparr>]"

section \<open>Evaluation of the number model\<close>

lemma ilog2_small: "n < 2 \<Longrightarrow> ilog2 n = 0"
  by (simp add: ilog2.simps)

lemma ilog2_large: "\<not> n < 2 \<Longrightarrow> ilog2 n = Suc (ilog2 (n div 2))"
  by (subst ilog2.simps) simp

lemma floor_rat_numeral_div: "\<lfloor>numeral a / numeral b :: rat\<rfloor> = numeral a div numeral b"
  by (metis floor_divide_of_int_eq of_int_numeral)

lemma floor_rat_one_div: "\<lfloor>1 / numeral b :: rat\<rfloor> = 1 div numeral b"
  by (metis floor_divide_of_int_eq of_int_1 of_int_numeral)

lemma ceiling_rat_numeral_div:
  "\<lceil>numeral a / numeral b :: rat\<rceil> = - (- numeral a div numeral b)"
  by (metis ceiling_def floor_divide_of_int_eq minus_divide_left of_int_minus of_int_numeral)

lemma ceiling_rat_one_div: "\<lceil>1 / numeral b :: rat\<rceil> = - (- 1 div numeral b)"
  by (metis ceiling_def floor_divide_of_int_eq minus_divide_left of_int_minus of_int_1
      of_int_numeral)

lemmas fl_eval = fl_def flog2_def rne_def Let_def ilog2_small ilog2_large inf_def zero_def
  floor_rat_numeral_div floor_rat_one_div ceiling_rat_numeral_div ceiling_rat_one_div

lemmas arith_eval = fsub_def fadd_def fdiv_def fmul_def fabs_def isInf_def signbit_def
  isFinite_def js_lt_def js_le_def js_gt_def js_ge_def

lemmas Number_eval = Number_def signedDecimal_def nonDecimal_def unsignedDecimal_def
  exponentPart_def scale10_def digitsVal_def isDigitOf_def digitVal_def trim_def
  isWhiteSpace_def str_def

lemmas encode_eval = encodeURIComponent_def uriUnreserved_def pctEncode_def utf8enc_def
  hexDigit_def str_def

lemma str_append: "str a @ str b = str (a @ b)"
  by (simp add: str_def)

text \<open>The model agrees with binary64 on the usual examples.\<close>

lemma fl_one_tenth: "fl (1 / 10) = Fin (3602879701896397 / 36028797018963968)"
  by (simp add: fl_eval)

lemma Number_examples:
  "Number (str ''4783.45'') = Fin (5259458895885107 / 1099511627776)"
  "Number (str '' 0x1F '') = Fin 31"
  "Number (str ''.'') = NaN"
  "Number (str '''') = Fin 0"
  "Number (str ''-0'') = NegZero"
  "Number (str ''-Infinity'') = NegInf"
  "Number (str ''1e3'') = Fin 1000"
  "Number (str ''12abc'') = NaN"
  by (simp_all add: Number_eval fl_eval)

section \<open>Properties of the payload decoder\<close>

lemma indexFrom_range: "indexFrom k p s = - 1 \<or> int k \<le> indexFrom k p s"
proof (induction s arbitrary: k)
  case Nil
  then show ?case by simp
next
  case (Cons c s)
  from Cons [of "Suc k"] show ?case by auto
qed

lemma indexFrom_start: "indexFrom k p s = int k \<longleftrightarrow> prefix p s"
proof (cases s)
  case Nil
  then show ?thesis by auto
next
  case (Cons c t)
  from indexFrom_range [of "Suc k" p t] have "indexFrom (Suc k) p t \<noteq> int k" by auto
  with Cons show ?thesis by simp
qed

lemma indexFrom_absent: "c \<notin> set s \<Longrightarrow> indexFrom k [c] s = - 1"
  by (induction s arbitrary: k) auto

lemma indexFrom_first: "c \<notin> set m \<Longrightarrow> indexFrom k [c] (m @ c # r) = int (k + length m)"
  by (induction m arbitrary: k) auto

lemma indexFrom_sublist: "indexFrom k p s = - 1 \<longleftrightarrow> \<not> sublist p s"
proof (induction s arbitrary: k)
  case Nil
  then show ?case by auto
next
  case (Cons c s)
  then show ?case by (auto simp: sublist_Cons_right)
qed

lemma indexOf_zero: "indexOf s p = 0 \<longleftrightarrow> prefix p s"
  using indexFrom_start [of 0 p s] by (simp add: indexOf_def)

lemma decode_wrapped:
  assumes "prefix (str ''data:'') m" and "0x2C \<notin> set m"
  shows "decodeDataPayload (m @ 0x2C # p) =
           (if sublist (str '';base64'') m then atob p else decodeURIComponent p)"
proof -
  have a: "indexOf (m @ 0x2C # p) (str ''data:'') = 0"
    using assms(1) by (simp add: indexOf_zero)
  have b: "indexOf (m @ 0x2C # p) (str '','') = int (length m)"
    using indexFrom_first [OF assms(2), of 0 p] by (simp add: indexOf_def str_def)
  have c: "indexOf m (str '';base64'') \<noteq> - 1 \<longleftrightarrow> sublist (str '';base64'') m"
    by (simp add: indexOf_def indexFrom_sublist)
  have d: "nat (int (length m) + 1) = Suc (length m)"
    by simp
  show ?thesis
    unfolding decodeDataPayload_def by (simp add: a b c d Let_def)
qed

lemma decode_plain: "\<not> prefix (str ''data:'') s \<Longrightarrow> decodeDataPayload s = Inr s"
  by (simp add: decodeDataPayload_def indexOf_zero)

lemma decode_no_separator: "0x2C \<notin> set s \<Longrightarrow> decodeDataPayload s = Inr s"
  using indexFrom_absent [of "0x2C" s 0]
  by (simp add: decodeDataPayload_def indexOf_def str_def Let_def)

lemma prefix_takeWhile:
  assumes "prefix d s" and "\<forall>x \<in> set d. P x"
  shows "prefix d (takeWhile P s)"
proof -
  from assms(1) obtain t where "s = d @ t" by (auto simp: prefix_def)
  with assms(2) show ?thesis by simp
qed

lemma decode_segments:
  assumes "prefix (str ''data:'') s" and "0x2C \<in> set s"
  shows "decodeDataPayload s =
           (let m = takeWhile (\<lambda>c. c \<noteq> 0x2C) s; p = drop (Suc (length m)) s
            in if sublist (str '';base64'') m then atob p else decodeURIComponent p)"
proof -
  define m where "m = takeWhile (\<lambda>c. c \<noteq> 0x2C) s"
  define p where "p = drop (Suc (length m)) s"
  from assms(2) have "dropWhile (\<lambda>c. c \<noteq> 0x2C) s \<noteq> []" by simp
  then obtain r where r: "dropWhile (\<lambda>c. c \<noteq> 0x2C) s = 0x2C # r"
    using hd_dropWhile [of "\<lambda>c. c \<noteq> 0x2C" s] by (cases "dropWhile (\<lambda>c. c \<noteq> 0x2C) s") auto
  have s: "s = m @ 0x2C # r"
    using takeWhile_dropWhile_id [of "\<lambda>c. c \<noteq> 0x2C" s] r by (simp add: m_def)
  then have pr: "p = r" by (simp add: p_def)
  have nm: "0x2C \<notin> set m"
    unfolding m_def by (auto dest: set_takeWhileD)
  have pm: "prefix (str ''data:'') m"
    unfolding m_def using assms(1) by (intro prefix_takeWhile) (auto simp: str_def)
  have "decodeDataPayload s = (if sublist (str '';base64'') m then atob p else decodeURIComponent p)"
    using decode_wrapped [OF pm nm, of r] s pr by simp
  then show ?thesis by (simp add: Let_def m_def [symmetric] p_def [symmetric])
qed

lemma atob_error: "atob p = Inl e \<longleftrightarrow> isl (atob p) \<and> e = InvalidCharacterError"
  by (auto simp: atob_def Let_def)

lemma decodeURIComponent_error:
  "decodeURIComponent p = Inl e \<longleftrightarrow> isl (decodeURIComponent p) \<and> e = URIError"
  by (auto simp: decodeURIComponent_def split: option.splits)

lemma wrapped_decode_fails:
  assumes "encodeURIComponent url = Inr q"
    and "net (str ''https://api.allorigins.win/get?url='' @ q) = Inr r"
    and "ok r" and "body_json r = Inr p"
    and "decodeDataPayload (orEmpty (contents p)) = Inl e"
  shows "fetchViaAllOriginsGet net url = (Inl e, [str ''https://api.allorigins.win/get?url='' @ q])"
  using assms by (simp add: fetchViaAllOriginsGet_def Let_def)

text \<open>Evaluation of the decoders on a concrete string.\<close>

lemmas decode_eval = decodeDataPayload_def indexOf_def str_def atob_def stripPadding_def
  isAsciiWhitespace_def b64val_def decodeURIComponent_def utf16_def validCodePoint_def
  digitVal_def Let_def

text \<open>
  C7. For every input string: decode returns it unchanged when it does not begin with
  the wrapper prefix \<open>data:\<close>; it returns the whole input unchanged when it begins with the
  prefix and contains no separator (no comma); and for an input \<open>m,p\<close> whose metadata
  segment \<open>m\<close> (the text before the first comma) begins with the prefix, the result is the
  base64 decoding \<open>atob p\<close> of the payload segment when \<open>m\<close> contains \<open>;base64\<close>, and its
  percent decoding \<open>decodeURIComponent p\<close> otherwise.
\<close>

theorem decodeDataPayload_cases:
  "(\<not> prefix (str ''data:'') s \<longrightarrow> decodeDataPayload s = Inr s)
   \<and> (prefix (str ''data:'') s \<and> 0x2C \<notin> set s \<longrightarrow> decodeDataPayload s = Inr s)
   \<and> (prefix (str ''data:'') m \<and> 0x2C \<notin> set m \<and> sublist (str '';base64'') m
        \<longrightarrow> decodeDataPayload (m @ 0x2C # p) = atob p)
   \<and> (prefix (str ''data:'') m \<and> 0x2C \<notin> set m \<and> \<not> sublist (str '';base64'') m
        \<longrightarrow> decodeDataPayload (m @ 0x2C # p) = decodeURIComponent p)"
  by (simp add: decode_plain decode_no_separator decode_wrapped)

text \<open>
  The four cases at concrete inputs: plain text, a wrapper without separator, the
  base64 payload \<open>aGk=\<close> (the text \<open>hi\<close>) and the percent-encoded payload \<open>a%2Cb\<close> (the text
  \<open>a,b\<close>).
\<close>

theorem decodeDataPayload_cases_witness:
  "\<not> prefix (str ''data:'') (str ''DATE,SP500'')
   \<and> decodeDataPayload (str ''DATE,SP500'') = Inr (str ''DATE,SP500'')
   \<and> prefix (str ''data:'') (str ''data:text/csv'') \<and> 0x2C \<notin> set (str ''data:text/csv'')
   \<and> decodeDataPayload (str ''data:text/csv'') = Inr (str ''data:text/csv'')
   \<and> sublist (str '';base64'') (str ''data:text/csv;base64'')
   \<and> decodeDataPayload (str ''data:text/csv;base64'' @ 0x2C # str ''aGk='') = Inr (str ''hi'')
   \<and> \<not> sublist (str '';base64'') (str ''data:text/csv'')
   \<and> decodeDataPayload (str ''data:text/csv'' @ 0x2C # str ''a%2Cb'') = Inr (str ''a,b'')"
proof -
  have a: "atob (str ''aGk='') = Inr (str ''hi'')"
    by (simp add: decode_eval)
  have b: "decodeURIComponent (str ''a%2Cb'') = Inr (str ''a,b'')"
    by (simp add: decode_eval)
  have c: "sublist (str '';base64'') (str ''data:text/csv;base64'')"
    by (simp add: str_def sublist_Cons_right)
  have d: "\<not> sublist (str '';base64'') (str ''data:text/csv'')"
    by (simp add: str_def sublist_Cons_right)
  have e: "prefix (str ''data:'') (str ''data:text/csv'') \<and> 0x2C \<notin> set (str ''data:text/csv'')"
    by (simp add: str_def)
  have f: "prefix (str ''data:'') (str ''data:text/csv;base64'')
           \<and> 0x2C \<notin> set (str ''data:text/csv;base64'')"
    by (simp add: str_def)
  have g: "\<not> prefix (str ''data:'') (str ''DATE,SP500'')"
    by (simp add: str_def)
  from decodeDataPayload_cases [of "str ''DATE,SP500''" "str ''data:text/csv;base64''" "str ''aGk=''"]
    decodeDataPayload_cases [of "str ''data:text/csv''" "str ''data:text/csv''" "str ''a%2Cb''"]
    a b c d e f g
  show ?thesis by simp
qed

text \<open>
  C8, as the claim states it, fails: decode raises on a malformed base64 payload and on
  a malformed percent-encoded payload.
\<close>

theorem decodeDataPayload_raises:
  "decodeDataPayload (str ''data:text/plain;base64,!'') = Inl InvalidCharacterError
   \<and> decodeDataPayload (str ''data:,%'') = Inl URIError"
  by (simp add: decode_eval)

section \<open>Properties of the resilient fetcher\<close>

lemma fetchText_result:
  "fst (fetchText net url) =
     (case fst (fetchViaCodetabs net url) of
        Inr t \<Rightarrow> Inr t
      | Inl _ \<Rightarrow> (case fst (fetchViaAllOriginsGet net url) of
                     Inr t \<Rightarrow> Inr t
                   | Inl _ \<Rightarrow> fst (fetchViaAllOriginsRaw net url)))"
  by (cases "fetchViaCodetabs net url"; cases "fetchViaAllOriginsGet net url";
      cases "fetchViaAllOriginsRaw net url")
    (auto simp: fetchText_def split: sum.splits)

lemma fetchText_trace:
  "snd (fetchText net url) =
     snd (fetchViaCodetabs net url)
     @ (if isl (fst (fetchViaCodetabs net url))
        then snd (fetchViaAllOriginsGet net url)
             @ (if isl (fst (fetchViaAllOriginsGet net url))
                then snd (fetchViaAllOriginsRaw net url) else [])
        else [])"
  by (cases "fetchViaCodetabs net url"; cases "fetchViaAllOriginsGet net url";
      cases "fetchViaAllOriginsRaw net url")
    (auto simp: fetchText_def split: sum.splits)

lemma transport_requests:
  assumes "encodeURIComponent url = Inr q"
  shows "snd (fetchViaCodetabs net url) = [str ''https://api.codetabs.com/v1/proxy/?quest='' @ q]"
    and "snd (fetchViaAllOriginsGet net url) = [str ''https://api.allorigins.win/get?url='' @ q]"
    and "snd (fetchViaAllOriginsRaw net url) = [str ''https://api.allorigins.win/raw?url='' @ q]"
  using assms
  by (simp_all add: fetchViaCodetabs_def fetchViaAllOriginsGet_def fetchViaAllOriginsRaw_def Let_def
      split: sum.splits)

lemma wrapped_empty_fails:
  assumes "encodeURIComponent url = Inr q"
    and "net (str ''https://api.allorigins.win/get?url='' @ q) = Inr r"
    and "ok r" and "body_json r = Inr p"
    and "decodeDataPayload (orEmpty (contents p)) = Inr []"
  shows "fst (fetchViaAllOriginsGet net url) = Inl AllOrigins_get_empty"
  using assms by (simp add: fetchViaAllOriginsGet_def Let_def)

text \<open>
  C1. For every URL and every network, fetchText tries the three transports in the
  fixed order codetabs, allorigins wrapped, allorigins raw: its result is the text of
  the first transport that succeeds, and otherwise the outcome of the raw transport;
  its requests are those of the codetabs transport, followed by those of the wrapped
  transport only when codetabs failed, followed by those of the raw transport only
  when the wrapped transport failed too; each transport sends its one request to its own
  relay; the wrapped transport fails with \<open>AllOrigins/get empty\<close> when the decoded
  payload is empty; fetchText fails if and only if all three transports fail, and then
  with the error of the raw transport, the last of the chain.
\<close>

theorem fetchText_chain:
  "fst (fetchText net url) =
     (case fst (fetchViaCodetabs net url) of
        Inr t \<Rightarrow> Inr t
      | Inl _ \<Rightarrow> (case fst (fetchViaAllOriginsGet net url) of
                     Inr t \<Rightarrow> Inr t
                   | Inl _ \<Rightarrow> fst (fetchViaAllOriginsRaw net url)))
   \<and> snd (fetchText net url) =
       snd (fetchViaCodetabs net url)
       @ (if isl (fst (fetchViaCodetabs net url))
          then snd (fetchViaAllOriginsGet net url)
               @ (if isl (fst (fetchViaAllOriginsGet net url))
                  then snd (fetchViaAllOriginsRaw net url) else [])
          else [])
   \<and> (encodeURIComponent url = Inr q \<longrightarrow>
         snd (fetchViaCodetabs net url) = [str ''https://api.codetabs.com/v1/proxy/?quest='' @ q]
       \<and> snd (fetchViaAllOriginsGet net url) = [str ''https://api.allorigins.win/get?url='' @ q]
       \<and> snd (fetchViaAllOriginsRaw net url) = [str ''https://api.allorigins.win/raw?url='' @ q])
   \<and> (encodeURIComponent url = Inr q
       \<and> net (str ''https://api.allorigins.win/get?url='' @ q) = Inr r
       \<and> ok r \<and> body_json r = Inr p \<and> decodeDataPayload (orEmpty (contents p)) = Inr []
       \<longrightarrow> fst (fetchViaAllOriginsGet net url) = Inl AllOrigins_get_empty)
   \<and> (isl (fst (fetchText net url)) \<longleftrightarrow>
         isl (fst (fetchViaCodetabs net url)) \<and> isl (fst (fetchViaAllOriginsGet net url))
         \<and> isl (fst (fetchViaAllOriginsRaw net url)))
   \<and> (isl (fst (fetchViaCodetabs net url)) \<and> isl (fst (fetchViaAllOriginsGet net url))
       \<and> isl (fst (fetchViaAllOriginsRaw net url))
       \<longrightarrow> fst (fetchText net url) = fst (fetchViaAllOriginsRaw net url))"
proof -
  have a: "isl (fst (fetchText net url)) \<longleftrightarrow>
         isl (fst (fetchViaCodetabs net url)) \<and> isl (fst (fetchViaAllOriginsGet net url))
         \<and> isl (fst (fetchViaAllOriginsRaw net url))"
    by (simp add: fetchText_result split: sum.splits)
  have b: "isl (fst (fetchViaCodetabs net url)) \<and> isl (fst (fetchViaAllOriginsGet net url))
       \<longrightarrow> fst (fetchText net url) = fst (fetchViaAllOriginsRaw net url)"
    by (simp add: fetchText_result split: sum.splits)
  show ?thesis
    using a b fetchText_result [of net url] fetchText_trace [of net url]
      transport_requests [of url q net] wrapped_empty_fails [of url q net r p]
    by blast
qed


text \<open>
  The escalation scenario: HTTP 500 from the direct relay, an empty base64 payload from
  the wrapped relay, the CSV text from the raw relay; and a network where all three
  relays fail, where the error of fetchText is the one of the raw relay.
\<close>

lemma encode_sample_url:
  "encodeURIComponent (str ''https://x.test/a.csv'') = Inr (str ''https%3A%2F%2Fx.test%2Fa.csv'')"
  by (simp add: encode_eval)

lemma escalation_net_codetabs:
  "escalation_net (str ''https://api.codetabs.com/v1/proxy/?quest=https%3A%2F%2Fx.test%2Fa.csv'') =
     Inr \<lparr>ok = False, status = 500, body_text = Inr [], body_json = Inl BodyError\<rparr>"
  by (simp add: escalation_net_def)

lemma escalation_net_get:
  "escalation_net (str ''https://api.allorigins.win/get?url=https%3A%2F%2Fx.test%2Fa.csv'') =
     Inr \<lparr>ok = True, status = 200, body_text = Inr [],
                body_json = Inr \<lparr>contents = Some (str ''data:text/csv;base64,'')\<rparr>\<rparr>"
  by (simp add: escalation_net_def str_def)

lemma escalation_net_raw:
  "escalation_net (str ''https://api.allorigins.win/raw?url=https%3A%2F%2Fx.test%2Fa.csv'') =
     Inr \<lparr>ok = True, status = 200, body_text = Inr (str ''DATE,V''),
                body_json = Inl BodyError\<rparr>"
  by (simp add: escalation_net_def str_def)

lemma escalation_codetabs:
  "fetchViaCodetabs escalation_net (str ''https://x.test/a.csv'') =
     (Inl (Codetabs_HTTP 500),
      [str ''https://api.codetabs.com/v1/proxy/?quest=https%3A%2F%2Fx.test%2Fa.csv''])"
  by (simp add: fetchViaCodetabs_def encode_sample_url str_append escalation_net_codetabs)

lemma decode_empty_wrapper: "decodeDataPayload (str ''data:text/csv;base64,'') = Inr []"
  by (simp add: decode_eval)

lemma escalation_get:
  "fetchViaAllOriginsGet escalation_net (str ''https://x.test/a.csv'') =
     (Inl AllOrigins_get_empty,
      [str ''https://api.allorigins.win/get?url=https%3A%2F%2Fx.test%2Fa.csv''])"
  by (simp add: fetchViaAllOriginsGet_def encode_sample_url str_append escalation_net_get
      orEmpty_def decode_empty_wrapper)

lemma escalation_raw:
  "fetchViaAllOriginsRaw escalation_net (str ''https://x.test/a.csv'') =
     (Inr (str ''DATE,V''),
      [str ''https://api.allorigins.win/raw?url=https%3A%2F%2Fx.test%2Fa.csv''])"
  by (simp add: fetchViaAllOriginsRaw_def encode_sample_url str_append escalation_net_raw)

lemma exhausted_net_codetabs:
  "exhausted_net (str ''https://api.codetabs.com/v1/proxy/?quest=https%3A%2F%2Fx.test%2Fa.csv'') =
     Inr \<lparr>ok = False, status = 500, body_text = Inr [], body_json = Inl BodyError\<rparr>"
  by (simp add: exhausted_net_def)

lemma exhausted_net_get:
  "exhausted_net (str ''https://api.allorigins.win/get?url=https%3A%2F%2Fx.test%2Fa.csv'') =
     Inr \<lparr>ok = False, status = 404, body_text = Inr [], body_json = Inl BodyError\<rparr>"
  by (simp add: exhausted_net_def str_def)

lemma exhausted_net_raw:
  "exhausted_net (str ''https://api.allorigins.win/raw?url=https%3A%2F%2Fx.test%2Fa.csv'') =
     Inr \<lparr>ok = False, status = 503, body_text = Inr [], body_json = Inl BodyError\<rparr>"
  by (simp add: exhausted_net_def str_def)

lemma exhausted_codetabs:
  "fst (fetchViaCodetabs exhausted_net (str ''https://x.test/a.csv'')) = Inl (Codetabs_HTTP 500)"
  by (simp add: fetchViaCodetabs_def encode_sample_url str_append exhausted_net_codetabs)

lemma exhausted_get:
  "fst (fetchViaAllOriginsGet exhausted_net (str ''https://x.test/a.csv'')) =
     Inl (AllOrigins_get_HTTP 404)"
  by (simp add: fetchViaAllOriginsGet_def encode_sample_url str_append exhausted_net_get)

lemma exhausted_raw:
  "fst (fetchViaAllOriginsRaw exhausted_net (str ''https://x.test/a.csv'')) =
     Inl (AllOrigins_raw_HTTP 503)"
  by (simp add: fetchViaAllOriginsRaw_def encode_sample_url str_append exhausted_net_raw)

theorem fetchText_chain_witness:
  "encodeURIComponent (str ''https://x.test/a.csv'') = Inr (str ''https%3A%2F%2Fx.test%2Fa.csv'')
   \<and> fst (fetchViaCodetabs escalation_net (str ''https://x.test/a.csv'')) = Inl (Codetabs_HTTP 500)
   \<and> fst (fetchViaAllOriginsGet escalation_net (str ''https://x.test/a.csv''))
       = Inl AllOrigins_get_empty
   \<and> fst (fetchText escalation_net (str ''https://x.test/a.csv'')) = Inr (str ''DATE,V'')
   \<and> snd (fetchText escalation_net (str ''https://x.test/a.csv'')) =
       [str ''https://api.codetabs.com/v1/proxy/?quest=https%3A%2F%2Fx.test%2Fa.csv'',
        str ''https://api.allorigins.win/get?url=https%3A%2F%2Fx.test%2Fa.csv'',
        str ''https://api.allorigins.win/raw?url=https%3A%2F%2Fx.test%2Fa.csv'']
   \<and> isl (fst (fetchViaCodetabs exhausted_net (str ''https://x.test/a.csv'')))
   \<and> isl (fst (fetchViaAllOriginsGet exhausted_net (str ''https://x.test/a.csv'')))
   \<and> isl (fst (fetchViaAllOriginsRaw exhausted_net (str ''https://x.test/a.csv'')))
   \<and> fst (fetchText exhausted_net (str ''https://x.test/a.csv'')) = Inl (AllOrigins_raw_HTTP 503)"
proof -
  note esc = fetchText_chain [of escalation_net "str ''https://x.test/a.csv''"
      "str ''https%3A%2F%2Fx.test%2Fa.csv''"]
  note exh = fetchText_chain [of exhausted_net "str ''https://x.test/a.csv''"
      "str ''https%3A%2F%2Fx.test%2Fa.csv''"]
  have a: "fst (fetchText escalation_net (str ''https://x.test/a.csv'')) = Inr (str ''DATE,V'')"
    using esc by (simp add: escalation_codetabs escalation_get escalation_raw)
  have b: "snd (fetchText escalation_net (str ''https://x.test/a.csv'')) =
       [str ''https://api.codetabs.com/v1/proxy/?quest=https%3A%2F%2Fx.test%2Fa.csv'',
        str ''https://api.allorigins.win/get?url=https%3A%2F%2Fx.test%2Fa.csv'',
        str ''https://api.allorigins.win/raw?url=https%3A%2F%2Fx.test%2Fa.csv'']"
    using esc by (simp add: escalation_codetabs escalation_get escalation_raw)
  have c: "fst (fetchText exhausted_net (str ''https://x.test/a.csv'')) = Inl (AllOrigins_raw_HTTP 503)"
    using exh by (simp add: exhausted_codetabs exhausted_get exhausted_raw)
  from a b c show ?thesis
    by (simp add: encode_sample_url escalation_codetabs escalation_get exhausted_codetabs
        exhausted_get exhausted_raw)
qed

section \<open>Errors of the payload decoder in the fetch chain\<close>

lemma malformed_net_codetabs:
  "malformed_net (str ''https://api.codetabs.com/v1/proxy/?quest=https%3A%2F%2Fx.test%2Fa.csv'') =
     Inr \<lparr>ok = False, status = 500, body_text = Inr [], body_json = Inl BodyError\<rparr>"
  by (simp add: malformed_net_def)

lemma malformed_net_get:
  "malformed_net (str ''https://api.allorigins.win/get?url=https%3A%2F%2Fx.test%2Fa.csv'') =
     Inr \<lparr>ok = True, status = 200, body_text = Inr [],
                body_json = Inr \<lparr>contents = Some (str ''data:text/plain;base64,!'')\<rparr>\<rparr>"
  by (simp add: malformed_net_def str_def)

lemma malformed_net_raw:
  "malformed_net (str ''https://api.allorigins.win/raw?url=https%3A%2F%2Fx.test%2Fa.csv'') =
     Inr \<lparr>ok = True, status = 200, body_text = Inr (str ''DATE,V''),
                body_json = Inl BodyError\<rparr>"
  by (simp add: malformed_net_def str_def)

lemma malformed_codetabs:
  "fst (fetchViaCodetabs malformed_net (str ''https://x.test/a.csv'')) = Inl (Codetabs_HTTP 500)"
  by (simp add: fetchViaCodetabs_def encode_sample_url str_append malformed_net_codetabs)

lemma malformed_raw:
  "fst (fetchViaAllOriginsRaw malformed_net (str ''https://x.test/a.csv'')) = Inr (str ''DATE,V'')"
  by (simp add: fetchViaAllOriginsRaw_def encode_sample_url str_append malformed_net_raw)

lemma decode_malformed_base64:
  "decodeDataPayload (str ''data:text/plain;base64,!'') = Inl InvalidCharacterError"
  by (simp add: decode_eval)

text \<open>
  C8, amended. decode raises the error \<open>e\<close> exactly when the input begins with the wrapper
  prefix, contains a separator, and the decoder selected by the metadata segment raises
  on the payload segment: \<open>atob\<close> when the metadata contains \<open>;base64\<close>, and then \<open>e\<close> is
  \<open>InvalidCharacterError\<close>; \<open>decodeURIComponent\<close> otherwise, and then \<open>e\<close> is \<open>URIError\<close>. On
  every other input decode returns a string. The error leaves decode: when the contents
  delivered by the wrapped relay make decode raise \<open>e\<close>, the wrapped transport fails with
  \<open>e\<close>, after its one request; and fetchText, which comes to the wrapped transport when the
  direct one has failed, absorbs the error: its outcome is the outcome of the raw
  transport.
\<close>

theorem decodeDataPayload_raises_iff:
  "(decodeDataPayload s = Inl e \<longleftrightarrow>
      prefix (str ''data:'') s \<and> 0x2C \<in> set s \<and>
      (let m = takeWhile (\<lambda>c. c \<noteq> 0x2C) s; p = drop (Suc (length m)) s
       in if sublist (str '';base64'') m then isl (atob p) \<and> e = InvalidCharacterError
          else isl (decodeURIComponent p) \<and> e = URIError))
   \<and> (isl (decodeDataPayload s) \<longleftrightarrow>
        prefix (str ''data:'') s \<and> 0x2C \<in> set s \<and>
        (let m = takeWhile (\<lambda>c. c \<noteq> 0x2C) s; p = drop (Suc (length m)) s
         in if sublist (str '';base64'') m then isl (atob p) else isl (decodeURIComponent p)))
   \<and> (encodeURIComponent url = Inr q
       \<and> isl (fst (fetchViaCodetabs net url))
       \<and> net (str ''https://api.allorigins.win/get?url='' @ q) = Inr r
       \<and> ok r \<and> body_json r = Inr env \<and> decodeDataPayload (orEmpty (contents env)) = Inl e'
       \<longrightarrow> fetchViaAllOriginsGet net url = (Inl e', [str ''https://api.allorigins.win/get?url='' @ q])
         \<and> fst (fetchText net url) = fst (fetchViaAllOriginsRaw net url))"
proof (intro conjI impI)
  show "decodeDataPayload s = Inl e \<longleftrightarrow>
      prefix (str ''data:'') s \<and> 0x2C \<in> set s \<and>
      (let m = takeWhile (\<lambda>c. c \<noteq> 0x2C) s; p = drop (Suc (length m)) s
       in if sublist (str '';base64'') m then isl (atob p) \<and> e = InvalidCharacterError
          else isl (decodeURIComponent p) \<and> e = URIError)"
  proof (cases "prefix (str ''data:'') s \<and> 0x2C \<in> set s")
    case False
    then have "decodeDataPayload s = Inr s"
      using decode_plain [of s] decode_no_separator [of s] by blast
    with False show ?thesis by auto
  next
    case True
    then show ?thesis
      using decode_segments [of s] atob_error decodeURIComponent_error
      by (simp add: Let_def)
  qed
next
  show "isl (decodeDataPayload s) \<longleftrightarrow>
        prefix (str ''data:'') s \<and> 0x2C \<in> set s \<and>
        (let m = takeWhile (\<lambda>c. c \<noteq> 0x2C) s; p = drop (Suc (length m)) s
         in if sublist (str '';base64'') m then isl (atob p) else isl (decodeURIComponent p))"
  proof (cases "prefix (str ''data:'') s \<and> 0x2C \<in> set s")
    case False
    then have "decodeDataPayload s = Inr s"
      using decode_plain [of s] decode_no_separator [of s] by blast
    with False show ?thesis by auto
  next
    case True
    then show ?thesis
      using decode_segments [of s] by (simp add: Let_def)
  qed
next
  assume h: "encodeURIComponent url = Inr q
       \<and> isl (fst (fetchViaCodetabs net url))
       \<and> net (str ''https://api.allorigins.win/get?url='' @ q) = Inr r
       \<and> ok r \<and> body_json r = Inr env \<and> decodeDataPayload (orEmpty (contents env)) = Inl e'"
  then show g: "fetchViaAllOriginsGet net url = (Inl e', [str ''https://api.allorigins.win/get?url='' @ q])"
    using wrapped_decode_fails [of url q net r env e'] by simp
  from h obtain c where "fst (fetchViaCodetabs net url) = Inl c"
    by (cases "fst (fetchViaCodetabs net url)") auto
  with g show "fst (fetchText net url) = fst (fetchViaAllOriginsRaw net url)"
    by (simp add: fetchText_result)
qed

text \<open>
  The wrapped relay answers \<open>data:text/plain;base64,!\<close> after the direct relay has
  answered HTTP 500: decode raises \<open>InvalidCharacterError\<close>, the wrapped transport fails
  with it, and fetchText returns the text of the raw relay.
\<close>

theorem decodeDataPayload_raises_iff_witness:
  "encodeURIComponent (str ''https://x.test/a.csv'') = Inr (str ''https%3A%2F%2Fx.test%2Fa.csv'')
   \<and> isl (fst (fetchViaCodetabs malformed_net (str ''https://x.test/a.csv'')))
   \<and> malformed_net (str ''https://api.allorigins.win/get?url='' @ str ''https%3A%2F%2Fx.test%2Fa.csv'')
       = Inr \<lparr>ok = True, status = 200, body_text = Inr [],
               body_json = Inr \<lparr>contents = Some (str ''data:text/plain;base64,!'')\<rparr>\<rparr>
   \<and> decodeDataPayload (orEmpty (Some (str ''data:text/plain;base64,!''))) = Inl InvalidCharacterError
   \<and> prefix (str ''data:'') (str ''data:text/plain;base64,!'')
   \<and> sublist (str '';base64'') (takeWhile (\<lambda>c. c \<noteq> 0x2C) (str ''data:text/plain;base64,!''))
   \<and> isl (atob (str ''!''))
   \<and> fetchViaAllOriginsGet malformed_net (str ''https://x.test/a.csv'')
       = (Inl InvalidCharacterError,
          [str ''https://api.allorigins.win/get?url='' @ str ''https%3A%2F%2Fx.test%2Fa.csv''])
   \<and> fst (fetchText malformed_net (str ''https://x.test/a.csv'')) = Inr (str ''DATE,V'')"
proof -
  have a: "malformed_net (str ''https://api.allorigins.win/get?url='' @ str ''https%3A%2F%2Fx.test%2Fa.csv'')
       = Inr \<lparr>ok = True, status = 200, body_text = Inr [],
               body_json = Inr \<lparr>contents = Some (str ''data:text/plain;base64,!'')\<rparr>\<rparr>"
    using malformed_net_get by (simp add: str_append)
  have b: "isl (fst (fetchViaCodetabs malformed_net (str ''https://x.test/a.csv'')))"
    by (simp add: malformed_codetabs)
  have c: "decodeDataPayload (orEmpty (Some (str ''data:text/plain;base64,!''))) = Inl InvalidCharacterError"
    by (simp add: orEmpty_def decode_malformed_base64)
  have d: "drop (Suc (length (takeWhile (\<lambda>c. c \<noteq> 0x2C) (str ''data:text/plain;base64,!''))))
             (str ''data:text/plain;base64,!'') = str ''!''"
    by (simp add: str_def)
  note t = decodeDataPayload_raises_iff [of "str ''data:text/plain;base64,!''" InvalidCharacterError
      "str ''https://x.test/a.csv''" "str ''https%3A%2F%2Fx.test%2Fa.csv''" malformed_net
      "\<lparr>ok = True, status = 200, body_text = Inr [],
        body_json = Inr \<lparr>contents = Some (str ''data:text/plain;base64,!'')\<rparr>\<rparr>"
      "\<lparr>contents = Some (str ''data:text/plain;base64,!'')\<rparr>" InvalidCharacterError]
  from t decode_malformed_base64
  have e: "prefix (str ''data:'') (str ''data:text/plain;base64,!'')
     \<and> sublist (str '';base64'') (takeWhile (\<lambda>c. c \<noteq> 0x2C) (str ''data:text/plain;base64,!''))
     \<and> isl (atob (str ''!''))"
    by (simp add: Let_def d split: if_splits)
  from t a b c encode_sample_url
  have f: "fetchViaAllOriginsGet malformed_net (str ''https://x.test/a.csv'')
       = (Inl InvalidCharacterError,
          [str ''https://api.allorigins.win/get?url='' @ str ''https%3A%2F%2Fx.test%2Fa.csv''])
     \<and> fst (fetchText malformed_net (str ''https://x.test/a.csv''))
         = fst (fetchViaAllOriginsRaw malformed_net (str ''https://x.test/a.csv''))"
    by simp
  from a b c e f encode_sample_url malformed_raw show ?thesis by simp
qed

section \<open>Properties of the delimited time series parser\<close>

lemma splitLines_feed: "splitLines (0x0A # rest) = [] # splitLines rest"
  by (cases rest) simp_all

lemma splitLines_cons:
  "c \<noteq> 0x0A \<Longrightarrow> c \<noteq> 0x0D \<Longrightarrow> splitLines (c # s) = (case splitLines s of l # ls \<Rightarrow> (c # l) # ls | [] \<Rightarrow> [[c]])"
  by (cases s) simp_all

lemma splitLines_line_lf:
  "0x0A \<notin> set l \<Longrightarrow> 0x0D \<notin> set l \<Longrightarrow> splitLines (l @ 0x0A # rest) = l # splitLines rest"
  by (induction l) (simp_all add: splitLines_feed splitLines_cons)

lemma splitLines_line_crlf:
  "0x0A \<notin> set l \<Longrightarrow> 0x0D \<notin> set l \<Longrightarrow> splitLines (l @ 0x0D # 0x0A # rest) = l # splitLines rest"
  by (induction l) (simp_all add: splitLines_cons)

lemma splitLines_single:
  "0x0A \<notin> set l \<Longrightarrow> 0x0D \<notin> set l \<Longrightarrow> splitLines l = [l]"
  by (induction l) (simp_all add: splitLines_cons)

lemma splitLines_join:
  assumes "sep = [0x0A] \<or> sep = [0x0D, 0x0A]"
    and "\<forall>l \<in> set (x # xs). 0x0A \<notin> set l \<and> 0x0D \<notin> set l"
  shows "splitLines (joinWith sep (x # xs)) = x # xs"
  using assms(2)
proof (induction xs arbitrary: x)
  case Nil
  then show ?case by (simp add: splitLines_single)
next
  case (Cons y ys)
  then have "splitLines (joinWith sep (y # ys)) = y # ys" by simp
  with Cons.prems assms(1) show ?case
    by (auto simp: splitLines_line_lf splitLines_line_crlf)
qed

lemma Number_blank: "trim v = [] \<Longrightarrow> Number v = Fin 0"
  by (simp add: Number_def)

lemma parseLine_spec:
  assumes "l \<noteq> []"
  shows "parseLine l =
           (if blank_value l then Some \<lparr>date = hd (splitOn 0x2C l), value = Fin 0\<rparr>
            else spec_parse_line l)"
proof (cases "splitOn 0x2C l")
  case Nil
  with assms show ?thesis by (simp add: parseLine_def spec_parse_line_def blank_value_def)
next
  case (Cons d r)
  with assms show ?thesis
    by (cases r)
      (simp_all add: parseLine_def spec_parse_line_def spec_number_def blank_value_def
        Number_blank isFinite_def Let_def)
qed

text \<open>What parseFredCsv makes of one line after the header.\<close>

lemma map_filter_nonempty:
  "List.map_filter parseLine (filter (\<lambda>l. l \<noteq> []) ls) =
     List.map_filter (\<lambda>l. if blank_value l then Some \<lparr>date = hd (splitOn 0x2C l), value = Fin 0\<rparr>
                           else spec_parse_line l) ls"
proof (induction ls)
  case Nil
  then show ?case by simp
next
  case (Cons l ls)
  show ?case
  proof (cases "l = []")
    case True
    with Cons show ?thesis by (simp add: spec_parse_line_def blank_value_def)
  next
    case False
    with Cons show ?thesis by (simp add: parseLine_spec split: option.splits)
  qed
qed

lemma parseFredCsv_lines:
  assumes "header \<noteq> []"
    and "splitLines csv = header # ls"
  shows "parseFredCsv csv =
           List.map_filter (\<lambda>l. if blank_value l then Some \<lparr>date = hd (splitOn 0x2C l), value = Fin 0\<rparr>
                                 else spec_parse_line l) ls"
proof (cases "filter (\<lambda>l. l \<noteq> []) ls")
  case Nil
  then have "List.map_filter parseLine (filter (\<lambda>l. l \<noteq> []) ls) = []"
    by simp
  then have "List.map_filter (\<lambda>l. if blank_value l then Some \<lparr>date = hd (splitOn 0x2C l), value = Fin 0\<rparr>
                                 else spec_parse_line l) ls = []"
    by (simp add: map_filter_nonempty)
  with assms Nil show ?thesis by (simp add: parseFredCsv_def)
next
  case (Cons a as)
  with assms show ?thesis
    using map_filter_nonempty [of ls] by (simp add: parseFredCsv_def)
qed

lemma length_map_filter:
  "length (List.map_filter f xs) = length (filter (\<lambda>x. f x \<noteq> None) xs)"
  by (induction xs) (auto split: option.splits)

lemma map_filter_cong_set:
  "(\<And>x. x \<in> set xs \<Longrightarrow> f x = g x) \<Longrightarrow> List.map_filter f xs = List.map_filter g xs"
  by (induction xs) (auto simp: List.map_filter_simps split: option.splits)

lemma fetchFred_fetched:
  assumes "encodeURIComponent sid = Inr q"
    and "fst (fetchText net (str ''https://fred.stlouisfed.org/graph/fredgraph.csv?id='' @ q)) = Inr csv"
  shows "fetchFred net sid = (if parseFredCsv csv = [] then Inl No_data else Inr (parseFredCsv csv))"
  using assms by (simp add: fetchFred_def Let_def)

text \<open>
  For every input made of a non-empty header line followed by any lines, joined by line
  feeds or by carriage return and line feed (no line containing either character),
  parseFredCsv returns one point for every line after the header that either has a
  second field converting to a finite number, or has a blank second field, for which
  the value of the point is 0; the points are in the order of the lines.
\<close>

lemma parseFredCsv_joined:
  assumes "header \<noteq> []"
    and "\<forall>l \<in> set (header # ls). 0x0A \<notin> set l \<and> 0x0D \<notin> set l"
    and "sep = [0x0A] \<or> sep = [0x0D, 0x0A]"
  shows "parseFredCsv (joinWith sep (header # ls)) =
           List.map_filter (\<lambda>l. if blank_value l then Some \<lparr>date = hd (splitOn 0x2C l), value = Fin 0\<rparr>
                                 else spec_parse_line l) ls"
proof -
  have "splitLines (joinWith sep (header # ls)) = header # ls"
    using splitLines_join [OF assms(3) assms(2)] .
  with assms(1) show ?thesis by (rule parseFredCsv_lines)
qed

text \<open>
  On such an input where no line has a blank second field, parseFredCsv returns what the
  specification's parser returns, so the number of points is the number \<open>N\<close> of lines
  after the header whose second field parses as a finite number; and when fetchText
  delivers the input, fetchFred fails with \<open>No data\<close> exactly when the series is empty, and
  returns the series otherwise.
\<close>

lemma parseFredCsv_agrees:
  assumes "header \<noteq> []"
    and "\<forall>l \<in> set (header # ls). 0x0A \<notin> set l \<and> 0x0D \<notin> set l"
    and "sep = [0x0A] \<or> sep = [0x0D, 0x0A]"
    and "\<forall>l \<in> set ls. \<not> blank_value l"
  shows "parseFredCsv (joinWith sep (header # ls)) = spec_parse (header # ls)"
    and "length (parseFredCsv (joinWith sep (header # ls)))
           = length (filter (\<lambda>l. spec_parse_line l \<noteq> None) ls)"
proof -
  have "List.map_filter (\<lambda>l. if blank_value l then Some \<lparr>date = hd (splitOn 0x2C l), value = Fin 0\<rparr>
                              else spec_parse_line l) ls = List.map_filter spec_parse_line ls"
    using assms(4) by (intro map_filter_cong_set) simp
  then have p: "parseFredCsv (joinWith sep (header # ls)) = List.map_filter spec_parse_line ls"
    using parseFredCsv_joined [OF assms(1-3)] by simp
  then show "parseFredCsv (joinWith sep (header # ls)) = spec_parse (header # ls)"
    by (simp add: spec_parse_def)
  from p show "length (parseFredCsv (joinWith sep (header # ls)))
           = length (filter (\<lambda>l. spec_parse_line l \<noteq> None) ls)"
    by (simp add: length_map_filter)
qed

lemma fetchFred_no_data:
  assumes "encodeURIComponent sid = Inr q"
    and "fst (fetchText net (str ''https://fred.stlouisfed.org/graph/fredgraph.csv?id='' @ q)) = Inr csv"
  shows "fetchFred net sid = Inl No_data \<longleftrightarrow> parseFredCsv csv = []"
    and "parseFredCsv csv \<noteq> [] \<Longrightarrow> fetchFred net sid = Inr (parseFredCsv csv)"
  using fetchFred_fetched [OF assms] by simp_all

text \<open>
  A header, two observations, a missing observation and an empty line give two points.
\<close>

lemma sample_parse:
  "parseFredCsv sample_csv =
     [\<lparr>date = str ''2024-01-02'', value = Fin (2607398366782423 / 549755813888)\<rparr>,
      \<lparr>date = str ''2024-01-04'', value = Fin (644407272365097 / 137438953472)\<rparr>]"
  by (simp add: sample_csv_def sample_lines_def parseFredCsv_def parseLine_def
      Number_eval fl_eval isFinite_def)

lemma sample_fetch:
  "fst (fetchText sample_net (str ''https://fred.stlouisfed.org/graph/fredgraph.csv?id='' @ str ''SP500''))
     = Inr sample_csv"
  by (simp add: fetchText_def fetchViaCodetabs_def sample_net_def encode_eval)

lemma sample_agrees:
  "parseFredCsv (joinWith [0x0A] (str ''DATE,SP500'' # sample_lines))
     = spec_parse (str ''DATE,SP500'' # sample_lines)
   \<and> length (filter (\<lambda>l. spec_parse_line l \<noteq> None) sample_lines) = 2
   \<and> fetchFred sample_net (str ''SP500'') =
       Inr [\<lparr>date = str ''2024-01-02'', value = Fin (2607398366782423 / 549755813888)\<rparr>,
            \<lparr>date = str ''2024-01-04'', value = Fin (644407272365097 / 137438953472)\<rparr>]"
proof -
  have a: "str ''DATE,SP500'' \<noteq> []"
    by (simp add: str_def)
  have b: "\<forall>l \<in> set (str ''DATE,SP500'' # sample_lines). 0x0A \<notin> set l \<and> 0x0D \<notin> set l"
    by (simp add: sample_lines_def str_def)
  have c: "encodeURIComponent (str ''SP500'') = Inr (str ''SP500'')"
    by (simp add: encode_eval)
  have d: "\<forall>l \<in> set sample_lines. \<not> blank_value l"
    by (simp add: sample_lines_def blank_value_def str_def trim_def isWhiteSpace_def)
  have e: "parseFredCsv (joinWith [0x0A] (str ''DATE,SP500'' # sample_lines)) =
       [\<lparr>date = str ''2024-01-02'', value = Fin (2607398366782423 / 549755813888)\<rparr>,
        \<lparr>date = str ''2024-01-04'', value = Fin (644407272365097 / 137438953472)\<rparr>]"
    using sample_parse by (simp add: sample_csv_def)
  note t = parseFredCsv_agrees [OF a b _ d, of "[0x0A]"]
  from t(2) e have g: "length (filter (\<lambda>l. spec_parse_line l \<noteq> None) sample_lines) = 2"
    by simp
  from fetchFred_no_data(2) [OF c sample_fetch] e
  have f: "fetchFred sample_net (str ''SP500'') =
       Inr [\<lparr>date = str ''2024-01-02'', value = Fin (2607398366782423 / 549755813888)\<rparr>,
            \<lparr>date = str ''2024-01-04'', value = Fin (644407272365097 / 137438953472)\<rparr>]"
    by (simp add: sample_csv_def)
  from t(1) f g show ?thesis by simp
qed

text \<open>
  C3. The parser does not drop a line whose second field is empty. The series text
  \<open>DATE,SP500\<close>, \<open>2024-01-02,\<close> has a header and one line, whose value field is empty and so
  does not parse as a finite number: the specification's parser returns no point for it
  (\<open>N = 0\<close>), and the fetch should fail with \<open>No data\<close>. parseFredCsv returns one point, of
  value 0, because \<open>Number('')\<close> is 0 and passes the \<open>Number.isFinite\<close> test; and fetchFred,
  given this text by the network, returns that one-point series instead of failing.
\<close>

theorem parseFredCsv_blank_value:
  "spec_parse [str ''DATE,SP500'', str ''2024-01-02,''] = []
   \<and> parseFredCsv (joinWith [0x0A] [str ''DATE,SP500'', str ''2024-01-02,''])
       = [\<lparr>date = str ''2024-01-02'', value = Fin 0\<rparr>]
   \<and> fetchFred blank_net (str ''SP500'') = Inr [\<lparr>date = str ''2024-01-02'', value = Fin 0\<rparr>]"
proof -
  have a: "spec_parse [str ''DATE,SP500'', str ''2024-01-02,''] = []"
    by (simp add: spec_parse_def spec_parse_line_def spec_number_def str_def trim_def
        List.map_filter_simps)
  have b: "parseFredCsv (joinWith [0x0A] [str ''DATE,SP500'', str ''2024-01-02,''])
       = [\<lparr>date = str ''2024-01-02'', value = Fin 0\<rparr>]"
    by (simp add: parseFredCsv_def parseLine_def Number_eval fl_eval isFinite_def)
  have c: "fst (fetchText blank_net (str ''https://fred.stlouisfed.org/graph/fredgraph.csv?id='' @ str ''SP500''))
     = Inr blank_csv"
    by (simp add: fetchText_def fetchViaCodetabs_def blank_net_def encode_eval)
  have d: "encodeURIComponent (str ''SP500'') = Inr (str ''SP500'')"
    by (simp add: encode_eval)
  from b have "fetchFred blank_net (str ''SP500'') = Inr [\<lparr>date = str ''2024-01-02'', value = Fin 0\<rparr>]"
    using fetchFred_fetched [OF d c] by (simp add: blank_csv_def)
  with a b show ?thesis by simp
qed

text \<open>
  \<open>Number\<close> converts an empty field to 0, so a line with an empty second field gives a
  point with the value 0; a literal 0 does the same.
\<close>

lemma zero_observations:
  "parseFredCsv (joinWith [0x0A] [str ''DATE,V'', str ''2024-01-02,'', str ''2024-01-03,5''])
     = [\<lparr>date = str ''2024-01-02'', value = Fin 0\<rparr>, \<lparr>date = str ''2024-01-03'', value = Fin 5\<rparr>]"
  "parseFredCsv (joinWith [0x0A] [str ''DATE,V'', str ''2024-01-02,0'', str ''2024-01-03,5''])
     = [\<lparr>date = str ''2024-01-02'', value = Fin 0\<rparr>, \<lparr>date = str ''2024-01-03'', value = Fin 5\<rparr>]"
  by (simp_all add: parseFredCsv_def parseLine_def Number_eval fl_eval
      isFinite_def)

section \<open>Properties of the aggregator\<close>

text \<open>
  C6. latestPair selects by position only: the empty series gives no latest and no
  previous point, a one-point series gives that point as latest and no previous point,
  and a series with at least two points (any prefix followed by \<open>a\<close> and then \<open>b\<close>) gives
  its last element \<open>b\<close> as latest and its second-to-last element \<open>a\<close> as previous,
  whatever the values of the points are.
\<close>

theorem latestPair_by_position:
  "latestPair [] = \<lparr>latest = None, previous = None\<rparr>
   \<and> latestPair [p] = \<lparr>latest = Some p, previous = None\<rparr>
   \<and> latestPair (xs @ [a, b]) = \<lparr>latest = Some b, previous = Some a\<rparr>"
proof -
  have "(xs @ [a, b]) ! Suc (length xs) = b"
    by (simp add: nth_append)
  moreover have "(xs @ [a, b]) ! length xs = a"
    by (simp add: nth_append)
  ultimately show ?thesis
    by (simp add: latestPair_def)
qed

lemma fdiv_by_zero: "fdiv a (Fin 0) \<in> {NaN, PosInf, NegInf}"
  by (cases a) (auto simp: fdiv_def isInf_def inf_def)

lemma fmul_nonfinite: "x \<in> {NaN, PosInf, NegInf} \<Longrightarrow> \<not> isFinite (fmul x (Fin 100))"
  by (auto simp: fmul_def isInf_def inf_def isFinite_def)

lemma percentChange_zero_nonfinite:
  "\<exists>x. percentChange cur (Some \<lparr>date = d, value = Fin 0\<rparr>) = Some x \<and> \<not> isFinite x"
  using fmul_nonfinite [OF fdiv_by_zero] by (simp add: percentChange_def fabs_def)

lemma percentChange_negzero_nonfinite:
  "\<exists>x. percentChange cur (Some \<lparr>date = d, value = NegZero\<rparr>) = Some x \<and> \<not> isFinite x"
  using fmul_nonfinite [OF fdiv_by_zero] by (simp add: percentChange_def fabs_def)

lemma fmtTicker_nonfinite: "\<not> isFinite x \<Longrightarrow> fmtTicker pf l v dec sfx (Some x) = fmtTicker pf l v dec sfx None"
  by (simp add: fmtTicker_def)

text \<open>
  C4. percentChange is null when there is no previous point, and otherwise
  \<open>(current - previous) / abs(previous) * 100\<close> in binary64 arithmetic; for 110 after 100
  it is 10, for 90 after 100 it is -10; when the previous value is zero (of either
  sign) the result is not finite, whatever the current value, and fmtTicker then
  returns the text it returns without a percent change: no percent is displayed.
\<close>

theorem percentChange_contract:
  "percentChange cur None = None
   \<and> percentChange cur (Some p) = Some (fmul (fdiv (fsub cur (value p)) (fabs (value p))) (Fin 100))
   \<and> percentChange (Fin 110) (Some \<lparr>date = d, value = Fin 100\<rparr>) = Some (Fin 10)
   \<and> percentChange (Fin 90) (Some \<lparr>date = d, value = Fin 100\<rparr>) = Some (Fin (- 10))
   \<and> (\<exists>x. percentChange cur (Some \<lparr>date = d, value = Fin 0\<rparr>) = Some x \<and> \<not> isFinite x
          \<and> fmtTicker pf lbl cur dec sfx (Some x) = fmtTicker pf lbl cur dec sfx None)
   \<and> (\<exists>x. percentChange cur (Some \<lparr>date = d, value = NegZero\<rparr>) = Some x \<and> \<not> isFinite x
          \<and> fmtTicker pf lbl cur dec sfx (Some x) = fmtTicker pf lbl cur dec sfx None)"
proof -
  have a: "percentChange (Fin 110) (Some \<lparr>date = d, value = Fin 100\<rparr>) = Some (Fin 10)"
    by (simp add: percentChange_def arith_eval fl_eval)
  have b: "percentChange (Fin 90) (Some \<lparr>date = d, value = Fin 100\<rparr>) = Some (Fin (- 10))"
    by (simp add: percentChange_def arith_eval fl_eval)
  have c: "percentChange cur (Some p) = Some (fmul (fdiv (fsub cur (value p)) (fabs (value p))) (Fin 100))"
    by (simp add: percentChange_def)
  have e: "percentChange cur None = None"
    by (simp add: percentChange_def)
  from a b c e percentChange_zero_nonfinite [of cur d] percentChange_negzero_nonfinite [of cur d]
  show ?thesis using fmtTicker_nonfinite by metis
qed

lemma direction_finite:
  "direction None = None"
  "direction (Some p) = Some (if js_ge p (Fin 0) then str ''up'' else str ''down'')"
  by (simp_all add: direction_def)

text \<open>
  C5 fails on the code where the percent change is not finite: the series with the
  observations 0 and then 5 has the percent change \<open>+Infinity\<close>; fmtTicker leaves the
  percent out of the text, and the direction passed to updateSpans is \<open>up\<close>, not null.
  The direction of a percent change of \<open>-Infinity\<close> or NaN is \<open>down\<close>.
\<close>

theorem direction_nonfinite:
  "parseFredCsv (joinWith [0x0A] [str ''DATE,V'', str ''2024-01-02,0'', str ''2024-01-03,5''])
     = [\<lparr>date = str ''2024-01-02'', value = Fin 0\<rparr>, \<lparr>date = str ''2024-01-03'', value = Fin 5\<rparr>]
   \<and> percentChange (Fin 5) (Some \<lparr>date = str ''2024-01-02'', value = Fin 0\<rparr>) = Some PosInf
   \<and> rendered pf \<lparr>attr = str ''VIX'', fred = str ''VIXCLS'', label = str ''VIX'', decimals = 2,
                   suffix = None\<rparr>
        [\<lparr>date = str ''2024-01-02'', value = Fin 0\<rparr>, \<lparr>date = str ''2024-01-03'', value = Fin 5\<rparr>]
       = Some (str ''VIX '' @ toLocaleString pf (Fin 5) (Some 2) 2, Some (str ''up''))
   \<and> direction (Some PosInf) = Some (str ''up'')
   \<and> direction (Some NegInf) = Some (str ''down'')
   \<and> direction (Some NaN) = Some (str ''down'')"
proof -
  have a: "percentChange (Fin 5) (Some \<lparr>date = str ''2024-01-02'', value = Fin 0\<rparr>) = Some PosInf"
    by (simp add: percentChange_def arith_eval fl_eval)
  have b: "rendered pf \<lparr>attr = str ''VIX'', fred = str ''VIXCLS'', label = str ''VIX'', decimals = 2,
                   suffix = None\<rparr>
        [\<lparr>date = str ''2024-01-02'', value = Fin 0\<rparr>, \<lparr>date = str ''2024-01-03'', value = Fin 5\<rparr>]
       = Some (str ''VIX '' @ toLocaleString pf (Fin 5) (Some 2) 2, Some (str ''up''))"
    by (simp add: rendered_def latestPair_def a fmtTicker_def direction_def isFinite_def
        js_ge_def js_le_def str_append)
  from a b zero_observations(2) show ?thesis
    by (simp add: direction_def js_ge_def js_le_def)
qed

section \<open>Properties of the orchestrator\<close>

lemma updateSpan_ticker: "data_ticker (updateSpan txt dir el) = data_ticker el"
  by (simp add: updateSpan_def Let_def)

lemma updateSpan_text: "textContent (updateSpan txt dir el) = txt"
  by (simp add: updateSpan_def Let_def)

lemma updateSpans_length: "length (updateSpans a txt dir doc) = length doc"
  by (simp add: updateSpans_def)

lemma updateSpans_nth:
  "i < length doc \<Longrightarrow>
     updateSpans a txt dir doc ! i =
       (if data_ticker (doc ! i) = Some a then updateSpan txt dir (doc ! i) else doc ! i)"
  by (simp add: updateSpans_def)

lemma renderResult_length: "length (renderResult pf r doc) = length doc"
  by (simp add: renderResult_def updateSpans_length split: sum.splits option.splits prod.splits)

lemma renderResult_ticker:
  "i < length doc \<Longrightarrow> data_ticker (renderResult pf r doc ! i) = data_ticker (doc ! i)"
  by (simp add: renderResult_def updateSpans_nth updateSpan_ticker
      split: sum.splits option.splits prod.splits)

lemma renderResult_other:
  "i < length doc \<Longrightarrow> data_ticker (doc ! i) \<noteq> Some (attr cfg) \<Longrightarrow>
     renderResult pf (Inr (cfg, pts)) doc ! i = doc ! i"
  by (simp add: renderResult_def updateSpans_nth split: option.splits prod.splits)

lemma renderResult_rejected: "renderResult pf (Inl e) doc = doc"
  by (simp add: renderResult_def)

lemma renderResult_own:
  "i < length doc \<Longrightarrow> data_ticker (doc ! i) = Some (attr cfg) \<Longrightarrow>
     renderResult pf (Inr (cfg, pts)) doc ! i =
       (case rendered pf cfg pts of None \<Rightarrow> doc ! i
        | Some (txt, dir) \<Rightarrow> updateSpan txt dir (doc ! i))"
  by (simp add: renderResult_def updateSpans_nth split: option.splits prod.splits)

text \<open>The outcome for one ticker, as the callback sees it.\<close>

lemma fredPart_Cons:
  "fredPart pf net (c # cs) doc =
     fredPart pf net cs
       (renderResult pf (case fetchFred net (fred c) of Inl e \<Rightarrow> Inl e | Inr pts \<Rightarrow> Inr (c, pts)) doc)"
  by (simp add: fredPart_def settleAll_def)

lemma fredPart_Nil: "fredPart pf net [] doc = doc"
  by (simp add: fredPart_def settleAll_def)

lemma fredPart_length: "length (fredPart pf net cs doc) = length doc"
proof (induction cs arbitrary: doc)
  case Nil
  show ?case by (simp add: fredPart_Nil)
next
  case (Cons c cs)
  then show ?case by (simp add: fredPart_Cons renderResult_length)
qed

lemma fredPart_other:
  assumes "i < length doc" and "\<forall>c \<in> set cs. data_ticker (doc ! i) \<noteq> Some (attr c)"
  shows "fredPart pf net cs doc ! i = doc ! i"
  using assms
proof (induction cs arbitrary: doc)
  case Nil
  show ?case by (simp add: fredPart_Nil)
next
  case (Cons c cs)
  define doc' where
    "doc' = renderResult pf (case fetchFred net (fred c) of Inl e \<Rightarrow> Inl e | Inr pts \<Rightarrow> Inr (c, pts)) doc"
  from Cons.prems have same: "doc' ! i = doc ! i"
    unfolding doc'_def
    by (cases "fetchFred net (fred c)") (simp_all add: renderResult_rejected renderResult_other)
  have "length doc' = length doc"
    by (simp add: doc'_def renderResult_length)
  with Cons.prems same have "fredPart pf net cs doc' ! i = doc' ! i"
    by (intro Cons.IH) simp_all
  with same show ?case by (simp add: fredPart_Cons doc'_def)
qed

lemma fredPart_own:
  assumes "distinct (map attr cs)" and "cfg \<in> set cs" and "i < length doc"
    and "data_ticker (doc ! i) = Some (attr cfg)"
  shows "fredPart pf net cs doc ! i =
     (case fetchFred net (fred cfg) of
        Inl _ \<Rightarrow> doc ! i
      | Inr pts \<Rightarrow> (case rendered pf cfg pts of None \<Rightarrow> doc ! i
                    | Some (txt, dir) \<Rightarrow> updateSpan txt dir (doc ! i)))"
  using assms
proof (induction cs arbitrary: doc)
  case Nil
  then show ?case by simp
next
  case (Cons c cs)
  define doc' where
    "doc' = renderResult pf (case fetchFred net (fred c) of Inl e \<Rightarrow> Inl e | Inr pts \<Rightarrow> Inr (c, pts)) doc"
  have len: "length doc' = length doc"
    by (simp add: doc'_def renderResult_length)
  have tick: "data_ticker (doc' ! i) = data_ticker (doc ! i)"
    using Cons.prems(3) by (simp add: doc'_def renderResult_ticker)
  show ?case
  proof (cases "cfg = c")
    case True
    with Cons.prems(1) have "attr cfg \<notin> attr ` set cs" by simp
    then have "\<forall>d \<in> set cs. attr d \<noteq> attr cfg" by (metis imageI)
    with tick Cons.prems(4) have "\<forall>d \<in> set cs. data_ticker (doc' ! i) \<noteq> Some (attr d)"
      by auto
    with Cons.prems(3) len have "fredPart pf net cs doc' ! i = doc' ! i"
      by (intro fredPart_other) simp_all
    moreover have "doc' ! i =
       (case fetchFred net (fred cfg) of
          Inl _ \<Rightarrow> doc ! i
        | Inr pts \<Rightarrow> (case rendered pf cfg pts of None \<Rightarrow> doc ! i
                      | Some (txt, dir) \<Rightarrow> updateSpan txt dir (doc ! i)))"
      using Cons.prems(3,4) True unfolding doc'_def
      by (cases "fetchFred net (fred c)") (simp_all add: renderResult_rejected renderResult_own)
    ultimately show ?thesis by (simp add: fredPart_Cons doc'_def)
  next
    case False
    with Cons.prems(1,2) have in_cs: "cfg \<in> set cs" and ne: "attr c \<noteq> attr cfg" by auto
    from ne Cons.prems(3,4) have same: "doc' ! i = doc ! i"
      unfolding doc'_def
      by (cases "fetchFred net (fred c)") (simp_all add: renderResult_rejected renderResult_other)
    from Cons.prems(1) have "distinct (map attr cs)" by simp
    from Cons.IH [OF this in_cs, of doc'] Cons.prems(3,4) len tick
    have "fredPart pf net cs doc' ! i =
       (case fetchFred net (fred cfg) of
          Inl _ \<Rightarrow> doc' ! i
        | Inr pts \<Rightarrow> (case rendered pf cfg pts of None \<Rightarrow> doc' ! i
                      | Some (txt, dir) \<Rightarrow> updateSpan txt dir (doc' ! i)))"
      by simp
    then show ?thesis
      unfolding same by (simp add: fredPart_Cons doc'_def)
  qed
qed

lemma btcPart_length: "length (btcPart pf cg doc) = length doc"
  by (simp add: btcPart_def updateSpans_length Let_def split: sum.splits)

lemma btcPart_other:
  "i < length doc \<Longrightarrow> data_ticker (doc ! i) \<noteq> Some (str ''BTC'') \<Longrightarrow> btcPart pf cg doc ! i = doc ! i"
  by (simp add: btcPart_def updateSpans_nth Let_def split: sum.splits)

lemma djiaPart_length: "length (djiaPart pf net doc) = length doc"
  by (simp add: djiaPart_def updateSpans_length Let_def split: sum.splits option.splits)

lemma djiaPart_other:
  "i < length doc \<Longrightarrow> data_ticker (doc ! i) \<noteq> Some (str ''DJIA'') \<Longrightarrow> djiaPart pf net doc ! i = doc ! i"
  by (simp add: djiaPart_def updateSpans_nth Let_def split: sum.splits option.splits)

lemma fredTickers_distinct: "distinct (map attr fredTickers)"
  by (simp add: fredTickers_def str_def)

lemma fredTickers_keys:
  "cfg \<in> set fredTickers \<Longrightarrow> attr cfg \<noteq> str ''BTC'' \<and> attr cfg \<noteq> str ''DJIA''"
  by (auto simp: fredTickers_def str_def)

lemma fetchFred_nonempty: "fetchFred net sid = Inr pts \<Longrightarrow> pts \<noteq> []"
  by (auto simp: fetchFred_def Let_def split: sum.splits if_splits)

lemma rendered_nonempty: "pts \<noteq> [] \<Longrightarrow> \<exists>txt dir. rendered pf cfg pts = Some (txt, dir)"
  by (simp add: rendered_def latestPair_def Let_def)

lemma loadTicker_length: "length (loadTicker pf net cg doc) = length doc"
  by (simp add: loadTicker_def djiaPart_length btcPart_length fredPart_length)

lemma loadTicker_own:
  assumes "cfg \<in> set fredTickers" and "i < length doc"
    and "data_ticker (doc ! i) = Some (attr cfg)"
  shows "loadTicker pf net cg doc ! i =
     (case fetchFred net (fred cfg) of
        Inl _ \<Rightarrow> doc ! i
      | Inr pts \<Rightarrow> (case rendered pf cfg pts of None \<Rightarrow> doc ! i
                    | Some (txt, dir) \<Rightarrow> updateSpan txt dir (doc ! i)))"
proof -
  define d1 where "d1 = fredPart pf net fredTickers doc"
  define d2 where "d2 = btcPart pf cg d1"
  have l1: "length d1 = length doc" by (simp add: d1_def fredPart_length)
  have l2: "length d2 = length doc" by (simp add: d2_def btcPart_length l1)
  have own: "d1 ! i =
     (case fetchFred net (fred cfg) of
        Inl _ \<Rightarrow> doc ! i
      | Inr pts \<Rightarrow> (case rendered pf cfg pts of None \<Rightarrow> doc ! i
                    | Some (txt, dir) \<Rightarrow> updateSpan txt dir (doc ! i)))"
    unfolding d1_def using fredTickers_distinct assms by (rule fredPart_own)
  then have t1: "data_ticker (d1 ! i) = Some (attr cfg)"
    using assms(3) by (simp add: updateSpan_ticker split: sum.splits option.splits prod.splits)
  with fredTickers_keys [OF assms(1)] have "data_ticker (d1 ! i) \<noteq> Some (str ''BTC'')" by simp
  with assms(2) l1 have b: "d2 ! i = d1 ! i"
    unfolding d2_def by (intro btcPart_other) simp_all
  with t1 fredTickers_keys [OF assms(1)] have "data_ticker (d2 ! i) \<noteq> Some (str ''DJIA'')" by simp
  with assms(2) l2 have "djiaPart pf net d2 ! i = d2 ! i"
    by (intro djiaPart_other) simp_all
  with b own show ?thesis by (simp add: loadTicker_def d1_def d2_def)
qed

text \<open>
  C2. For every configured series-backed ticker and every element bound to its key,
  whatever the outcomes of the other tickers, of the quote provider and of the chart
  provider are: when the ticker's own fetch-and-parse is rejected, the element after
  the pass is the element before it (text and classes unchanged); when it is
  fulfilled, the element is updated with the text rendered from its own series. The
  pass keeps the elements of the document in place.
\<close>

theorem loadTicker_isolation:
  assumes "cfg \<in> set fredTickers" and "i < length doc"
    and "data_ticker (doc ! i) = Some (attr cfg)"
  shows "length (loadTicker pf net cg doc) = length doc
    \<and> (isl (fetchFred net (fred cfg)) \<longrightarrow> loadTicker pf net cg doc ! i = doc ! i)
    \<and> (\<forall>pts. fetchFred net (fred cfg) = Inr pts \<longrightarrow>
          (\<exists>txt dir. rendered pf cfg pts = Some (txt, dir)
             \<and> loadTicker pf net cg doc ! i = updateSpan txt dir (doc ! i)
             \<and> textContent (loadTicker pf net cg doc ! i) = txt))"
proof -
  note own = loadTicker_own [OF assms, of pf net cg]
  have a: "isl (fetchFred net (fred cfg)) \<longrightarrow> loadTicker pf net cg doc ! i = doc ! i"
    using own by (cases "fetchFred net (fred cfg)") simp_all
  have b: "\<exists>txt dir. rendered pf cfg pts = Some (txt, dir)
             \<and> loadTicker pf net cg doc ! i = updateSpan txt dir (doc ! i)
             \<and> textContent (loadTicker pf net cg doc ! i) = txt"
    if "fetchFred net (fred cfg) = Inr pts" for pts
  proof -
    from that have "pts \<noteq> []" by (rule fetchFred_nonempty)
    then obtain t d where r: "rendered pf cfg pts = Some (t, d)"
      using rendered_nonempty by blast
    with own that show ?thesis by (simp add: updateSpan_text)
  qed
  from a b show ?thesis by (simp add: loadTicker_length)
qed


text \<open>
  A pass in which the S&P 500 series is fetched and the NASDAQ series is not: the
  NASDAQ element keeps its text and classes, the S&P 500 element is rendered.
\<close>


lemma encode_series:
  "encodeURIComponent (str ''SP500'') = Inr (str ''SP500'')"
  "encodeURIComponent (str ''NASDAQCOM'') = Inr (str ''NASDAQCOM'')"
  by (simp_all add: encode_eval)

lemma encode_series_url:
  "encodeURIComponent (str ''https://fred.stlouisfed.org/graph/fredgraph.csv?id=SP500'')
     = Inr (str ''https%3A%2F%2Ffred.stlouisfed.org%2Fgraph%2Ffredgraph.csv%3Fid%3DSP500'')"
  "encodeURIComponent (str ''https://fred.stlouisfed.org/graph/fredgraph.csv?id=NASDAQCOM'')
     = Inr (str ''https%3A%2F%2Ffred.stlouisfed.org%2Fgraph%2Ffredgraph.csv%3Fid%3DNASDAQCOM'')"
  by (simp_all add: encode_eval)

lemma isolation_net_answers:
  "isolation_net (str ''https://api.codetabs.com/v1/proxy/?quest=https%3A%2F%2Ffred.stlouisfed.org%2Fgraph%2Ffredgraph.csv%3Fid%3DSP500'')
     = Inr \<lparr>ok = True, status = 200, body_text = Inr sample_csv, body_json = Inl BodyError\<rparr>"
  by (simp add: isolation_net_def)

lemma isolation_net_rejects:
  "isolation_net (str ''https://api.codetabs.com/v1/proxy/?quest=https%3A%2F%2Ffred.stlouisfed.org%2Fgraph%2Ffredgraph.csv%3Fid%3DNASDAQCOM'')
     = Inl NetworkError"
  "isolation_net (str ''https://api.allorigins.win/get?url=https%3A%2F%2Ffred.stlouisfed.org%2Fgraph%2Ffredgraph.csv%3Fid%3DNASDAQCOM'')
     = Inl NetworkError"
  "isolation_net (str ''https://api.allorigins.win/raw?url=https%3A%2F%2Ffred.stlouisfed.org%2Fgraph%2Ffredgraph.csv%3Fid%3DNASDAQCOM'')
     = Inl NetworkError"
  by (simp_all add: isolation_net_def str_def)

lemma isolation_sp500:
  "fst (fetchText isolation_net (str ''https://fred.stlouisfed.org/graph/fredgraph.csv?id=SP500''))
     = Inr sample_csv"
  by (simp add: fetchText_def fetchViaCodetabs_def encode_series_url str_append isolation_net_answers)

lemma isolation_nasdaq:
  "fst (fetchText isolation_net (str ''https://fred.stlouisfed.org/graph/fredgraph.csv?id=NASDAQCOM''))
     = Inl NetworkError"
  by (simp add: fetchText_def fetchViaCodetabs_def fetchViaAllOriginsGet_def
      fetchViaAllOriginsRaw_def encode_series_url str_append isolation_net_rejects)

lemma isolation_fetchFred:
  "fetchFred isolation_net (str ''SP500'') =
     Inr [\<lparr>date = str ''2024-01-02'', value = Fin (2607398366782423 / 549755813888)\<rparr>,
          \<lparr>date = str ''2024-01-04'', value = Fin (644407272365097 / 137438953472)\<rparr>]"
  "fetchFred isolation_net (str ''NASDAQCOM'') = Inl NetworkError"
  by (simp_all add: fetchFred_def encode_series str_append isolation_sp500 isolation_nasdaq
      sample_parse)

lemma sample_change_steps:
  "fsub (Fin (644407272365097 / 137438953472)) (Fin (2607398366782423 / 549755813888))
     = Fin (- (29769277322035 / 549755813888))"
  "fdiv (Fin (- (29769277322035 / 549755813888))) (Fin (2607398366782423 / 549755813888))
     = Fin (- (822698413637801 / 72057594037927936))"
  "fmul (Fin (- (822698413637801 / 72057594037927936))) (Fin 100)
     = Fin (- (160683283913633 / 140737488355328))"
  by (simp_all add: fsub_def fdiv_def fmul_def isInf_def signbit_def isFinite_def fl_eval)

lemma sample_change:
  "percentChange (Fin (644407272365097 / 137438953472))
     (Some \<lparr>date = d, value = Fin (2607398366782423 / 549755813888)\<rparr>)
   = Some (Fin (- (160683283913633 / 140737488355328)))"
  by (simp add: percentChange_def fabs_def sample_change_steps)

lemma sample_rendered:
  "rendered sample_platform (fredTickers ! 0)
     [\<lparr>date = str ''2024-01-02'', value = Fin (2607398366782423 / 549755813888)\<rparr>,
      \<lparr>date = str ''2024-01-04'', value = Fin (644407272365097 / 137438953472)\<rparr>]
   = Some (str ''S&P 500 4,689 '' @ [0x25BC] @ str ''1.14%'', Some (str ''down''))"
  by (simp add: rendered_def latestPair_def sample_change fmtTicker_def percentPart_def
      direction_def isFinite_def js_ge_def js_le_def sample_platform_def fredTickers_def str_def)

theorem loadTicker_isolation_witness:
  "fredTickers ! 0 \<in> set fredTickers \<and> fredTickers ! 1 \<in> set fredTickers
   \<and> data_ticker (sample_page ! 0) = Some (attr (fredTickers ! 0))
   \<and> data_ticker (sample_page ! 1) = Some (attr (fredTickers ! 1))
   \<and> isl (fetchFred isolation_net (fred (fredTickers ! 1)))
   \<and> \<not> isl (fetchFred isolation_net (fred (fredTickers ! 0)))
   \<and> loadTicker sample_platform isolation_net (Inl NetworkError) sample_page ! 1 = sample_page ! 1
   \<and> textContent (loadTicker sample_platform isolation_net (Inl NetworkError) sample_page ! 0)
       = str ''S&P 500 4,689 '' @ [0x25BC] @ str ''1.14%''
   \<and> classList (loadTicker sample_platform isolation_net (Inl NetworkError) sample_page ! 0)
       = [str ''tick--down'']"
proof -
  have m: "fredTickers ! 0 \<in> set fredTickers" "fredTickers ! 1 \<in> set fredTickers"
    by (simp_all add: fredTickers_def)
  have l: "0 < length sample_page" "1 < length sample_page"
    by (simp_all add: sample_page_def)
  have k: "data_ticker (sample_page ! 0) = Some (attr (fredTickers ! 0))"
    "data_ticker (sample_page ! 1) = Some (attr (fredTickers ! 1))"
    by (simp_all add: sample_page_def fredTickers_def)
  have f0: "fetchFred isolation_net (fred (fredTickers ! 0)) =
     Inr [\<lparr>date = str ''2024-01-02'', value = Fin (2607398366782423 / 549755813888)\<rparr>,
          \<lparr>date = str ''2024-01-04'', value = Fin (644407272365097 / 137438953472)\<rparr>]"
    using isolation_fetchFred(1) by (simp add: fredTickers_def)
  have f1: "fetchFred isolation_net (fred (fredTickers ! 1)) = Inl NetworkError"
    using isolation_fetchFred(2) by (simp add: fredTickers_def)
  from loadTicker_isolation [OF m(2) l(2) k(2), of sample_platform isolation_net "Inl NetworkError"] f1
  have a: "loadTicker sample_platform isolation_net (Inl NetworkError) sample_page ! 1 = sample_page ! 1"
    by simp
  from loadTicker_isolation [OF m(1) l(1) k(1), of sample_platform isolation_net "Inl NetworkError"] f0
    sample_rendered
  have b: "loadTicker sample_platform isolation_net (Inl NetworkError) sample_page ! 0
     = updateSpan (str ''S&P 500 4,689 '' @ [0x25BC] @ str ''1.14%'') (Some (str ''down''))
         (sample_page ! 0)"
    by simp
  have c: "classList (updateSpan (str ''S&P 500 4,689 '' @ [0x25BC] @ str ''1.14%'')
              (Some (str ''down'')) (sample_page ! 0)) = [str ''tick--down'']"
    by (simp add: updateSpan_def classList_add_def sample_page_def str_def)
  from m k f0 f1 a b c show ?thesis by (simp add: updateSpan_text)
qed

section \<open>Properties of the rounding function and of the playtime buckets\<close>

lemma ilog2_le: "0 < n \<Longrightarrow> 2 ^ ilog2 n \<le> n"
proof (induction n rule: ilog2.induct)
  case (1 n)
  show ?case
  proof (cases "n < 2")
    case True
    with 1(2) show ?thesis by (simp add: ilog2_small)
  next
    case False
    then have "0 < n div 2" by simp
    with 1(1) False have "2 ^ ilog2 (n div 2) \<le> n div 2" by simp
    then have "2 * 2 ^ ilog2 (n div 2) \<le> n" by simp
    with False show ?thesis by (simp add: ilog2_large)
  qed
qed

lemma ilog2_gt: "n < 2 ^ Suc (ilog2 n)"
proof (induction n rule: ilog2.induct)
  case (1 n)
  show ?case
  proof (cases "n < 2")
    case True
    then show ?thesis by (simp add: ilog2_small)
  next
    case False
    with 1 have "n div 2 < 2 ^ Suc (ilog2 (n div 2))" by simp
    then have "n < 2 * 2 ^ Suc (ilog2 (n div 2))" by simp
    with False show ?thesis by (simp add: ilog2_large)
  qed
qed

lemma flog2_le:
  assumes "0 < a"
  shows "2 powi (flog2 a) \<le> a"
proof (cases "1 \<le> a")
  case True
  then have f: "1 \<le> \<lfloor>a\<rfloor>" by simp
  then have "2 ^ ilog2 (nat \<lfloor>a\<rfloor>) \<le> nat \<lfloor>a\<rfloor>"
    by (intro ilog2_le) simp
  then have "(of_nat (2 ^ ilog2 (nat \<lfloor>a\<rfloor>)) :: rat) \<le> of_nat (nat \<lfloor>a\<rfloor>)"
    by (simp only: of_nat_le_iff)
  also have "(of_nat (nat \<lfloor>a\<rfloor>) :: rat) = of_int \<lfloor>a\<rfloor>"
    using f by simp
  also have "\<dots> \<le> a" by simp
  finally show ?thesis using True by (simp add: flog2_def)
next
  case False
  define c where "c = nat \<lceil>1 / a\<rceil>"
  define k where "k = ilog2 (c - 1)"
  from False assms have "1 < 1 / a" by simp
  then have "1 < \<lceil>1 / a\<rceil>" by (simp only: less_ceiling_iff of_int_1)
  then have c2: "2 \<le> c" unfolding c_def by linarith
  have "c - 1 < 2 ^ Suc k" unfolding k_def by (rule ilog2_gt)
  then have "c \<le> 2 ^ Suc k" by simp
  then have "(of_nat c :: rat) \<le> of_nat (2 ^ Suc k)" by (simp only: of_nat_le_iff)
  moreover have "1 / a \<le> of_int \<lceil>1 / a\<rceil>" by simp
  moreover have "(of_int \<lceil>1 / a\<rceil> :: rat) = of_nat c"
    using c2 by (simp add: c_def)
  ultimately have "1 / a \<le> 2 ^ Suc k" by simp
  with assms have b: "1 / 2 ^ Suc k \<le> a"
    by (simp add: field_simps)
  have e: "flog2 a = - int (Suc k)"
    using False by (simp add: flog2_def k_def c_def)
  have p: "(2::rat) powi (- int (Suc k)) = 1 / 2 ^ Suc k"
    by (simp only: power_int_minus power_int_of_nat inverse_eq_divide)
  show ?thesis
    unfolding e p by (rule b)
qed

lemma rne_ge: "of_int k \<le> x \<Longrightarrow> k \<le> rne x"
proof -
  assume "of_int k \<le> x"
  then have "k \<le> \<lfloor>x\<rfloor>" by (simp add: le_floor_iff)
  moreover have "\<lfloor>x\<rfloor> \<le> rne x" by (simp add: rne_def Let_def)
  ultimately show ?thesis by simp
qed

lemma fl_of_positive:
  assumes "0 < r"
  shows "fl r =
     (let q = 2 powi (max (flog2 r) (- 1022) - 52); m = of_int (rne (r / q)) * q
      in if 2 ^ 1024 \<le> m then PosInf else Fin m)"
  using assms by (simp add: fl_def Let_def inf_def zero_def)

lemma fl_bound:
  assumes "0 < r" and "0 < q" and "of_int k * q \<le> r" and "0 < k"
    and "q = 2 powi (max (flog2 r) (- 1022) - 52)"
  shows "fl r = PosInf \<or> (\<exists>y. fl r = Fin y \<and> of_int k * q \<le> y)"
proof -
  define m where "m = of_int (rne (r / q)) * q"
  from assms(2,3) have "of_int k \<le> r / q"
    by (simp add: pos_le_divide_eq)
  then have "k \<le> rne (r / q)" by (rule rne_ge)
  then have "(of_int k :: rat) \<le> of_int (rne (r / q))" by simp
  with assms(2) have "of_int k * q \<le> m"
    unfolding m_def by (simp add: mult_right_mono)
  moreover have "fl r = (if 2 ^ 1024 \<le> m then PosInf else Fin m)"
    using fl_of_positive [OF assms(1)] assms(5) by (simp add: Let_def m_def)
  ultimately show ?thesis by simp
qed

lemma fl_positive:
  assumes "2 powi (- 1074) \<le> r"
  shows "fl r = PosInf \<or> (\<exists>y. fl r = Fin y \<and> 0 < y)"
proof -
  define q :: rat where "q = 2 powi (max (flog2 r) (- 1022) - 52)"
  have "(0::rat) < 2 powi (- 1074)" by simp
  with assms have r: "0 < r" by simp
  have q: "0 < q" by (simp add: q_def)
  have "q \<le> r"
  proof (cases "flog2 r \<le> - 1022")
    case True
    then have "q = 2 powi (- 1074)" by (simp add: q_def max_def)
    with assms show ?thesis by simp
  next
    case False
    then have "q = 2 powi (flog2 r - 52)" by (simp add: q_def max_def)
    also have "\<dots> \<le> 2 powi (flog2 r)" by (rule power_int_increasing) simp_all
    also have "\<dots> \<le> r" using r by (rule flog2_le)
    finally show ?thesis .
  qed
  then have "of_int 1 * q \<le> r" by simp
  from fl_bound [OF r q this _ q_def] q show ?thesis by auto
qed

lemma fl_ge_one:
  assumes "1 \<le> r"
  shows "fl r = PosInf \<or> (\<exists>y. fl r = Fin y \<and> 1 \<le> y)"
proof -
  define e where "e = flog2 r"
  define q :: rat where "q = 2 powi (max (flog2 r) (- 1022) - 52)"
  from assms have r: "0 < r" by simp
  have e0: "0 \<le> e" using assms by (simp add: e_def flog2_def)
  then have qe: "q = 2 powi (e - 52)" by (simp add: q_def e_def max_def)
  have q: "0 < q" by (simp add: q_def)
  have s: "of_int (2 ^ 52) * q = 2 powi e"
    unfolding qe by (simp add: power_int_diff)
  have "2 powi e \<le> r" unfolding e_def using r by (rule flog2_le)
  with s have "of_int (2 ^ 52) * q \<le> r" by simp
  from fl_bound [OF r q this _ q_def]
  have "fl r = PosInf \<or> (\<exists>y. fl r = Fin y \<and> of_int (2 ^ 52) * q \<le> y)" by simp
  moreover have "(1::rat) \<le> 2 powi e" using e0 by simp
  ultimately show ?thesis unfolding s by force
qed

lemma minutes_positive: "js_gt (minutes m) (Fin 0) \<longleftrightarrow> (\<exists>n. m = Some n \<and> 0 < n)"
proof (cases m)
  case None
  then show ?thesis by (simp add: minutes_def js_gt_def js_lt_def)
next
  case (Some n)
  show ?thesis
  proof (cases "n = 0")
    case True
    with Some show ?thesis by (simp add: minutes_def fl_def js_gt_def js_lt_def)
  next
    case False
    then have "(1::rat) \<le> of_nat n" by simp
    from fl_ge_one [OF this] Some False show ?thesis
      by (auto simp: minutes_def js_gt_def js_lt_def)
  qed
qed

lemma hours_positive:
  "js_gt (fdiv (minutes m) (Fin 60)) (Fin 0) \<longleftrightarrow> js_gt (minutes m) (Fin 0)"
proof (cases "\<exists>n. m = Some n \<and> 0 < n")
  case False
  then have "minutes m = Fin 0"
    by (cases m) (auto simp: minutes_def fl_def)
  then show ?thesis
    by (simp add: fdiv_def isInf_def zero_def signbit_def js_gt_def js_lt_def)
next
  case True
  then obtain n where n: "m = Some n" "0 < n" by blast
  then have "(1::rat) \<le> of_nat n" by simp
  from fl_ge_one [OF this] consider "minutes m = PosInf" | y where "minutes m = Fin y" "1 \<le> y"
    using n by (auto simp: minutes_def)
  then show ?thesis
  proof cases
    case 1
    then show ?thesis
      by (simp add: fdiv_def isInf_def inf_def signbit_def js_gt_def js_lt_def)
  next
    case 2
    have "(2::rat) powi (- 1074) \<le> 1 / 60"
      by (simp add: power_int_minus_divide)
    also have "\<dots> \<le> y / 60" using 2(2) by simp
    finally have "fl (y / 60) = PosInf \<or> (\<exists>z. fl (y / 60) = Fin z \<and> 0 < z)"
      by (rule fl_positive)
    with 2 show ?thesis
      by (auto simp: fdiv_def isInf_def js_gt_def js_lt_def)
  qed
qed

lemma js_ge_positive: "0 < c \<Longrightarrow> js_ge h (Fin c) \<Longrightarrow> js_gt h (Fin 0)"
  by (cases h) (auto simp: js_ge_def js_le_def js_gt_def js_lt_def split: if_splits)

lemma bucketStep_cases:
  "(if js_gt (minutes (playtime_forever g)) (Fin 0)
    then bucketStep b g \<in> {b\<lparr>h100_plus := h100_plus b + 1\<rparr>, b\<lparr>h50_100 := h50_100 b + 1\<rparr>,
                            b\<lparr>h10_50 := h10_50 b + 1\<rparr>, b\<lparr>h1_10 := h1_10 b + 1\<rparr>,
                            b\<lparr>under_1h := under_1h b + 1\<rparr>}
    else bucketStep b g = b)"
proof (cases "js_gt (minutes (playtime_forever g)) (Fin 0)")
  case True
  then have "js_gt (fdiv (minutes (playtime_forever g)) (Fin 60)) (Fin 0)"
    by (simp add: hours_positive)
  with True show ?thesis by (simp add: bucketStep_def Let_def)
next
  case False
  then have n: "\<not> js_gt (fdiv (minutes (playtime_forever g)) (Fin 60)) (Fin 0)"
    by (simp add: hours_positive)
  then have "\<not> js_ge (fdiv (minutes (playtime_forever g)) (Fin 60)) (Fin c)" if "0 < c" for c
    using js_ge_positive [OF that] by blast
  with n False show ?thesis by (simp add: bucketStep_def Let_def)
qed

lemma bucketStep_total:
  "h100_plus (bucketStep b g) + h50_100 (bucketStep b g) + h10_50 (bucketStep b g)
     + h1_10 (bucketStep b g) + under_1h (bucketStep b g)
   = h100_plus b + h50_100 b + h10_50 b + h1_10 b + under_1h b
     + (if js_gt (minutes (playtime_forever g)) (Fin 0) then 1 else 0)"
  using bucketStep_cases [of g b] by (auto split: if_splits)

lemma foldl_bucketStep_total:
  "h100_plus (foldl bucketStep b gs) + h50_100 (foldl bucketStep b gs)
     + h10_50 (foldl bucketStep b gs) + h1_10 (foldl bucketStep b gs)
     + under_1h (foldl bucketStep b gs)
   = h100_plus b + h50_100 b + h10_50 b + h1_10 b + under_1h b + playedCount_of gs"
proof (induction gs arbitrary: b)
  case Nil
  then show ?case by (simp add: playedCount_of_def)
next
  case (Cons g gs)
  show ?case
    using Cons [of "bucketStep b g"] bucketStep_total [of b g]
    by (simp add: playedCount_of_def)
qed

lemma buckets_of_total:
  "h100_plus (buckets_of gs) + h50_100 (buckets_of gs) + h10_50 (buckets_of gs)
     + h1_10 (buckets_of gs) + under_1h (buckets_of gs) = playedCount_of gs"
  unfolding buckets_of_def using foldl_bucketStep_total [of _ gs] by simp

text \<open>
  C10. For every owned-games list, the five bucket counters add up to the played count;
  a game with positive playtime increments exactly one of the five counters, a game
  with no playtime leaves all five unchanged; a game has positive playtime in the
  script's sense exactly when its reported minutes are a positive whole number; and
  the same sum holds between \<open>stats.playtimeBuckets\<close> and \<open>stats.playedCount\<close> of the
  written document.
\<close>

theorem buckets_partition:
  "h100_plus (buckets_of gs) + h50_100 (buckets_of gs) + h10_50 (buckets_of gs)
     + h1_10 (buckets_of gs) + under_1h (buckets_of gs) = playedCount_of gs
   \<and> (if js_gt (minutes (playtime_forever g)) (Fin 0)
       then bucketStep b g \<in> {b\<lparr>h100_plus := h100_plus b + 1\<rparr>, b\<lparr>h50_100 := h50_100 b + 1\<rparr>,
                               b\<lparr>h10_50 := h10_50 b + 1\<rparr>, b\<lparr>h1_10 := h1_10 b + 1\<rparr>,
                               b\<lparr>under_1h := under_1h b + 1\<rparr>}
       else bucketStep b g = b)
   \<and> (js_gt (minutes (playtime_forever g)) (Fin 0) \<longleftrightarrow> (\<exists>n. playtime_forever g = Some n \<and> 0 < n))
   \<and> h100_plus (playtimeBuckets (stats (build_output stamp owned recent prof)))
       + h50_100 (playtimeBuckets (stats (build_output stamp owned recent prof)))
       + h10_50 (playtimeBuckets (stats (build_output stamp owned recent prof)))
       + h1_10 (playtimeBuckets (stats (build_output stamp owned recent prof)))
       + under_1h (playtimeBuckets (stats (build_output stamp owned recent prof)))
       = playedCount (stats (build_output stamp owned recent prof))"
  using buckets_of_total bucketStep_cases [of g b] minutes_positive [of "playtime_forever g"]
  by (simp add: build_output_def Let_def)

section \<open>Properties of the batch script\<close>

lemma steamGet_http_error: "outcome = Inr res \<Longrightarrow> \<not> ok res \<Longrightarrow> isl (steamGet m outcome)"
  by (simp add: steamGet_def)

lemma getPlayerSummary_isl: "isl (getPlayerSummary env) \<longleftrightarrow> isl (steamGet (str ''GetPlayerSummaries'') (playerSummaries env))"
  by (simp add: getPlayerSummary_def split: sum.splits option.splits)

lemma http_error_rejects:
  "ownedGames env = Inr res \<Longrightarrow> \<not> ok res \<Longrightarrow> isl (getOwnedGames env)"
  "recentlyPlayedGames env = Inr res' \<Longrightarrow> \<not> ok res' \<Longrightarrow> isl (getRecentlyPlayed env)"
  "playerSummaries env = Inr res'' \<Longrightarrow> \<not> ok res'' \<Longrightarrow> isl (getPlayerSummary env)"
  by (simp_all add: getOwnedGames_def getRecentlyPlayed_def getPlayerSummary_isl steamGet_def)

lemma fetch_rejection_rejects:
  "isl (ownedGames env) \<Longrightarrow> isl (getOwnedGames env)"
  "isl (recentlyPlayedGames env) \<Longrightarrow> isl (getRecentlyPlayed env)"
  "isl (playerSummaries env) \<Longrightarrow> isl (getPlayerSummary env)"
  by (auto simp: getOwnedGames_def getRecentlyPlayed_def getPlayerSummary_isl steamGet_def
      split: sum.splits)

lemma steam_fetch_cases:
  "steam_fetch env =
     (if \<not> missing (STEAM_API_KEY env) \<and> \<not> missing (STEAM_ID env)
         \<and> \<not> isl (getOwnedGames env) \<and> \<not> isl (getRecentlyPlayed env)
         \<and> \<not> isl (getPlayerSummary env) \<and> writable env
      then \<lparr>exit_status = 0,
            written = Some (build_output (toISOString env) (projr (getOwnedGames env))
                              (projr (getRecentlyPlayed env)) (projr (getPlayerSummary env)))\<rparr>
      else \<lparr>exit_status = 1, written = None\<rparr>)"
  by (auto simp: steam_fetch_def split: sum.splits)

text \<open>
  C9. The batch script ends with exit status 1 and writes nothing when either of the
  two credentials is missing (absent or empty), when any of the three endpoints
  answers with an HTTP error status, when any of the three requests is rejected, and
  when the write fails; a run that does not end with status 0 ends with status 1 and
  nothing written; a run ends with status 0 exactly when the three requests delivered
  their data and the document built from them was written; and the document has the
  top-level fields \<open>fetchedAt\<close> (the time stamp \<open>toISOString\<close> gave), \<open>profile\<close>, \<open>stats\<close>,
  \<open>recentlyPlayed\<close> and \<open>topByPlaytime\<close>.
\<close>

theorem steam_fetch_fatal:
  "(missing (STEAM_API_KEY env) \<or> missing (STEAM_ID env)
      \<longrightarrow> steam_fetch env = \<lparr>exit_status = 1, written = None\<rparr>)
   \<and> ((\<exists>res. ownedGames env = Inr res \<and> \<not> ok res)
       \<or> (\<exists>res. recentlyPlayedGames env = Inr res \<and> \<not> ok res)
       \<or> (\<exists>res. playerSummaries env = Inr res \<and> \<not> ok res)
      \<longrightarrow> steam_fetch env = \<lparr>exit_status = 1, written = None\<rparr>)
   \<and> (isl (ownedGames env) \<or> isl (recentlyPlayedGames env) \<or> isl (playerSummaries env)
      \<longrightarrow> steam_fetch env = \<lparr>exit_status = 1, written = None\<rparr>)
   \<and> (\<not> writable env \<longrightarrow> steam_fetch env = \<lparr>exit_status = 1, written = None\<rparr>)
   \<and> (exit_status (steam_fetch env) = 0 \<or> steam_fetch env = \<lparr>exit_status = 1, written = None\<rparr>)
   \<and> (exit_status (steam_fetch env) = 0 \<longleftrightarrow>
         (\<exists>owned recent prof.
            getOwnedGames env = Inr owned \<and> getRecentlyPlayed env = Inr recent
            \<and> getPlayerSummary env = Inr prof
            \<and> written (steam_fetch env) = Some (build_output (toISOString env) owned recent prof)))
   \<and> build_output stamp owned recent prof =
       \<lparr>fetchedAt = stamp,
        profile = profile (build_output stamp owned recent prof),
        stats = stats (build_output stamp owned recent prof),
        recentlyPlayed = recentlyPlayed (build_output stamp owned recent prof),
        topByPlaytime = topByPlaytime (build_output stamp owned recent prof)\<rparr>"
proof -
  have a: "missing (STEAM_API_KEY env) \<or> missing (STEAM_ID env)
      \<longrightarrow> steam_fetch env = \<lparr>exit_status = 1, written = None\<rparr>"
    by (simp add: steam_fetch_cases)
  have b: "(\<exists>res. ownedGames env = Inr res \<and> \<not> ok res)
       \<or> (\<exists>res. recentlyPlayedGames env = Inr res \<and> \<not> ok res)
       \<or> (\<exists>res. playerSummaries env = Inr res \<and> \<not> ok res)
      \<longrightarrow> steam_fetch env = \<lparr>exit_status = 1, written = None\<rparr>"
    using http_error_rejects [of env] by (auto simp: steam_fetch_cases)
  have c: "isl (ownedGames env) \<or> isl (recentlyPlayedGames env) \<or> isl (playerSummaries env)
      \<longrightarrow> steam_fetch env = \<lparr>exit_status = 1, written = None\<rparr>"
    using fetch_rejection_rejects [of env] by (auto simp: steam_fetch_cases)
  have d: "\<not> writable env \<longrightarrow> steam_fetch env = \<lparr>exit_status = 1, written = None\<rparr>"
    by (simp add: steam_fetch_cases)
  have e: "exit_status (steam_fetch env) = 0 \<or> steam_fetch env = \<lparr>exit_status = 1, written = None\<rparr>"
    by (simp add: steam_fetch_cases)
  have f: "exit_status (steam_fetch env) = 0 \<longleftrightarrow>
         (\<exists>owned recent prof.
            getOwnedGames env = Inr owned \<and> getRecentlyPlayed env = Inr recent
            \<and> getPlayerSummary env = Inr prof
            \<and> written (steam_fetch env) = Some (build_output (toISOString env) owned recent prof))"
    by (cases "getOwnedGames env"; cases "getRecentlyPlayed env"; cases "getPlayerSummary env")
      (auto simp: steam_fetch_def)
  have g: "build_output stamp owned recent prof =
       \<lparr>fetchedAt = stamp,
        profile = profile (build_output stamp owned recent prof),
        stats = stats (build_output stamp owned recent prof),
        recentlyPlayed = recentlyPlayed (build_output stamp owned recent prof),
        topByPlaytime = topByPlaytime (build_output stamp owned recent prof)\<rparr>"
    by (simp add: build_output_def Let_def)
  from a b c d e f g show ?thesis by blast
qed

text \<open>
  The sample run succeeds; without one credential, with an HTTP 403 answer, with a
  rejected request or with a failing write it ends with status 1.
\<close>

lemma sample_run: "exit_status (steam_fetch sample_env) = 0"
  by (simp add: steam_fetch_def sample_env_def getOwnedGames_def getRecentlyPlayed_def
      getPlayerSummary_def steamGet_def missing_def str_def)

theorem steam_fetch_fatal_witness:
  "missing (STEAM_ID (sample_env\<lparr>STEAM_ID := None\<rparr>))
   \<and> steam_fetch (sample_env\<lparr>STEAM_ID := None\<rparr>) = \<lparr>exit_status = 1, written = None\<rparr>
   \<and> steam_fetch (sample_env\<lparr>STEAM_API_KEY := Some []\<rparr>) = \<lparr>exit_status = 1, written = None\<rparr>
   \<and> steam_fetch (sample_env\<lparr>ownedGames :=
          Inr \<lparr>ok = False, status = 403, body_text = Inr [], body_json = Inl BodyError\<rparr>\<rparr>)
       = \<lparr>exit_status = 1, written = None\<rparr>
   \<and> steam_fetch (sample_env\<lparr>recentlyPlayedGames := Inl NetworkError\<rparr>)
       = \<lparr>exit_status = 1, written = None\<rparr>
   \<and> steam_fetch (sample_env\<lparr>writable := False\<rparr>) = \<lparr>exit_status = 1, written = None\<rparr>
   \<and> exit_status (steam_fetch sample_env) = 0
   \<and> (\<exists>d. written (steam_fetch sample_env) = Some d
          \<and> fetchedAt d = str ''2024-01-05T06:00:00.000Z'')"
proof -
  have a: "missing (STEAM_ID (sample_env\<lparr>STEAM_ID := None\<rparr>))"
    by (simp add: missing_def)
  have b: "missing (STEAM_API_KEY (sample_env\<lparr>STEAM_API_KEY := Some []\<rparr>))"
    by (simp add: missing_def)
  note t = steam_fetch_fatal [of sample_env "toISOString sample_env"]
  from t sample_run obtain owned recent prof where
    w: "written (steam_fetch sample_env) = Some (build_output (toISOString sample_env) owned recent prof)"
    by blast
  have s: "toISOString sample_env = str ''2024-01-05T06:00:00.000Z''"
    by (simp add: sample_env_def)
  from t [of owned recent prof] have "fetchedAt (build_output (toISOString sample_env) owned recent prof)
       = toISOString sample_env"
    by (metis steam_data.select_convs(1))
  with w s have c: "\<exists>d. written (steam_fetch sample_env) = Some d
          \<and> fetchedAt d = str ''2024-01-05T06:00:00.000Z''"
    by simp
  from a b c sample_run
    steam_fetch_fatal [of "sample_env\<lparr>STEAM_ID := None\<rparr>"]
    steam_fetch_fatal [of "sample_env\<lparr>STEAM_API_KEY := Some []\<rparr>"]
    steam_fetch_fatal [of "sample_env\<lparr>ownedGames :=
          Inr \<lparr>ok = False, status = 403, body_text = Inr [], body_json = Inl BodyError\<rparr>\<rparr>"]
    steam_fetch_fatal [of "sample_env\<lparr>recentlyPlayedGames := Inl NetworkError\<rparr>"]
    steam_fetch_fatal [of "sample_env\<lparr>writable := False\<rparr>"]
  show ?thesis by simp
qed

text \<open>
  The sample library: 100 hours and half an hour of playtime fill the first and the
  last bucket, the two games without playtime fill none; 125 minutes are shown as 2.1
  hours; the games are listed by decreasing playtime, equal playtimes in their order.
\<close>

lemma minutes_examples:
  "minutes (Some 6000) = Fin 6000" "minutes (Some 30) = Fin 30" "minutes (Some 0) = Fin 0"
  "minutes None = Fin 0" "minutes (Some 125) = Fin 125"
  by (simp_all add: minutes_def fl_eval)

lemma hours_division:
  "fdiv (Fin 6000) (Fin 60) = Fin 100" "fdiv (Fin 30) (Fin 60) = Fin (1 / 2)"
  "fdiv (Fin 0) (Fin 60) = Fin 0"
  by (simp_all add: fdiv_def isInf_def signbit_def fl_eval)

lemma sample_buckets:
  "buckets_of sample_games =
     \<lparr>h100_plus = 1, h50_100 = 0, h10_50 = 0, h1_10 = 0, under_1h = 1\<rparr>"
  "playedCount_of sample_games = 2"
  by (simp_all add: buckets_of_def playedCount_of_def bucketStep_def sample_games_def
      minutes_examples hours_division js_ge_def js_gt_def js_le_def js_lt_def)

lemma hours_example: "hours (Some 125) = Fin (4728779608739021 / 2251799813685248)"
  by (simp add: hours_def minutes_examples round_num_def arith_eval fl_eval)

lemma sample_top:
  "map top_appid (topByPlaytime_of sample_games) = [570, 730, 440, 620]"
  by (simp add: topByPlaytime_of_def sortBy_def sample_games_def minutes_examples
      fsub_def isInf_def signbit_def js_gt_def js_lt_def fl_eval)

end
